theory Spec2Isabelle
  imports Main "HOL-Library.AList"
begin

section \<open>Python values used by \<open>manager/app/naum.py\<close>\<close>

text \<open>
  A Python \<open>str\<close> received by the Manager (common name, challenge name, interface
  name, address, compose file) is a \<^typ>\<open>string\<close>: one \<^typ>\<open>char\<close> per code
  point, code points below 256. A \<open>bytes\<close> value is a \<^typ>\<open>string\<close> too, one
  \<^typ>\<open>char\<close> per byte. Text produced by \<open>bytes.decode('utf-8')\<close> may hold any
  code point and is a list of code points (\<^typ>\<open>nat list\<close>). Python integers are
  \<^typ>\<open>int\<close>.
\<close>

type_synonym ustr = "nat list"

definition codepoints :: "string \<Rightarrow> ustr" where
  "codepoints s = map of_char s"

text \<open>The exceptions the module can raise (all of them Python built-ins or standard
  library classes; the module's own \<open>ManagerException\<close> is never raised).\<close>

datatype error =
    BinasciiError
  | UnicodeDecodeError
  | KeyError string
  | ValueError string
  | AttributeError string
  | CalledProcessError nat

subsection \<open>\<open>str(int)\<close> and \<open>'{}'.format(int)\<close>\<close>

definition digit_char :: "nat \<Rightarrow> char" where
  "digit_char d = char_of (48 + d)"

fun digits :: "nat \<Rightarrow> string" where
  "digits n = (if n < 10 then [digit_char n] else digits (n div 10) @ [digit_char (n mod 10)])"

declare digits.simps [simp del]

definition str_int :: "int \<Rightarrow> string" where
  "str_int i = (if i < 0 then CHR ''-'' # digits (nat (- i)) else digits (nat i))"

subsection \<open>Slicing \<open>s[:n]\<close>\<close>

text \<open>A negative bound counts from the end of the string, as Python's slices do.\<close>

definition slice_to :: "int \<Rightarrow> 'a list \<Rightarrow> 'a list" where
  "slice_to n s = (if n < 0 then take (nat (int (length s) + n)) s else take (nat n) s)"

subsection \<open>\<open>str.lower()\<close>, \<open>str.join\<close>, \<open>str.strip()\<close>\<close>

definition lower_char :: "char \<Rightarrow> char" where
  "lower_char c =
     (let n = (of_char c :: nat)
      in if (65 \<le> n \<and> n \<le> 90) \<or> (192 \<le> n \<and> n \<le> 222 \<and> n \<noteq> 215)
         then char_of (n + 32) else c)"

definition lower :: "string \<Rightarrow> string" where
  "lower s = map lower_char s"

fun join_str :: "string \<Rightarrow> string list \<Rightarrow> string" where
  "join_str sep [] = []"
| "join_str sep [x] = x"
| "join_str sep (x # y # ys) = x @ sep @ join_str sep (y # ys)"

definition isspace :: "nat \<Rightarrow> bool" where
  "isspace c \<longleftrightarrow>
     (9 \<le> c \<and> c \<le> 13) \<or> (28 \<le> c \<and> c \<le> 32) \<or> c = 133 \<or> c = 160 \<or> c = 5760
     \<or> (8192 \<le> c \<and> c \<le> 8202) \<or> c = 8232 \<or> c = 8233 \<or> c = 8239 \<or> c = 8287
     \<or> c = 12288"

definition strip :: "ustr \<Rightarrow> ustr" where
  "strip t = rev (dropWhile isspace (rev (dropWhile isspace t)))"

subsection \<open>\<open>os.path.join\<close> and \<open>os.path.normpath\<close> (POSIX)\<close>

definition path_join :: "string \<Rightarrow> string \<Rightarrow> string" where
  "path_join a b =
     (if take 1 b = ''/'' then b
      else if a = [] \<or> last a = CHR ''/'' then a @ b
      else a @ ''/'' @ b)"

fun split_on :: "char \<Rightarrow> string \<Rightarrow> string list" where
  "split_on sep [] = [[]]"
| "split_on sep (c # cs) =
     (if c = sep then [] # split_on sep cs
      else (case split_on sep cs of [] \<Rightarrow> [[c]] | x # xs \<Rightarrow> (c # x) # xs))"

fun norm_comps :: "nat \<Rightarrow> string list \<Rightarrow> string list \<Rightarrow> string list" where
  "norm_comps initial_slashes new_comps [] = new_comps"
| "norm_comps initial_slashes new_comps (part # comps) =
     (if part = [] \<or> part = ''.'' then norm_comps initial_slashes new_comps comps
      else if part \<noteq> ''..'' \<or> (initial_slashes = 0 \<and> new_comps = [])
              \<or> (new_comps \<noteq> [] \<and> last new_comps = ''..'')
        then norm_comps initial_slashes (new_comps @ [part]) comps
      else if new_comps \<noteq> [] then norm_comps initial_slashes (butlast new_comps) comps
      else norm_comps initial_slashes new_comps comps)"

definition normpath :: "string \<Rightarrow> string" where
  "normpath path =
     (if path = [] then ''.''
      else
        let initial_slashes =
              (if take 1 path = ''/''
               then (if take 2 path = ''//'' \<and> take 3 path \<noteq> ''///'' then 2 else 1)
               else (0::nat));
            comps = norm_comps initial_slashes [] (split_on CHR ''/'' path);
            p = replicate initial_slashes CHR ''/'' @ join_str ''/'' comps
        in if p = [] then ''.'' else p)"

subsection \<open>\<open>str.encode('utf-8')\<close> and \<open>bytes.decode('utf-8')\<close>\<close>

definition utf8_encode :: "string \<Rightarrow> string" where
  "utf8_encode s =
     concat (map (\<lambda>c. let n = (of_char c :: nat)
                       in if n < 128 then [c]
                          else [char_of (192 + n div 64), char_of (128 + n mod 64)]) s)"

definition is_cont :: "nat \<Rightarrow> bool" where
  "is_cont b \<longleftrightarrow> 128 \<le> b \<and> b \<le> 191"

text \<open>Length of the sequence a lead byte announces; 0 for a byte that cannot lead.\<close>

definition seq_len :: "nat \<Rightarrow> nat" where
  "seq_len b =
     (if b < 128 then 1
      else if 194 \<le> b \<and> b \<le> 223 then 2
      else if 224 \<le> b \<and> b \<le> 239 then 3
      else if 240 \<le> b \<and> b \<le> 244 then 4
      else 0)"

text \<open>The strict decoder: no overlong forms, no surrogates, nothing above U+10FFFF.\<close>

definition second_ok :: "nat \<Rightarrow> nat \<Rightarrow> bool" where
  "second_ok b0 b1 \<longleftrightarrow>
     (if b0 = 224 then 160 \<le> b1 \<and> b1 \<le> 191
      else if b0 = 237 then 128 \<le> b1 \<and> b1 \<le> 159
      else if b0 = 240 then 144 \<le> b1 \<and> b1 \<le> 191
      else if b0 = 244 then 128 \<le> b1 \<and> b1 \<le> 143
      else is_cont b1)"

definition seq_value :: "nat \<Rightarrow> nat list \<Rightarrow> nat" where
  "seq_value b0 cs =
     fold (\<lambda>c acc. acc * 64 + (c - 128)) cs
       (if b0 < 128 then b0 else if b0 < 224 then b0 - 192 else if b0 < 240 then b0 - 224
        else b0 - 240)"

fun utf8_decode :: "nat list \<Rightarrow> error + ustr" where
  "utf8_decode [] = Inr []"
| "utf8_decode (b0 # bs) =
     (let n = seq_len b0; cs = take (n - 1) bs
      in if n = 0 \<or> length bs < n - 1 then Inl UnicodeDecodeError
         else if n > 1 \<and> \<not> (second_ok b0 (hd cs) \<and> list_all is_cont (tl cs))
           then Inl UnicodeDecodeError
         else (case utf8_decode (drop (n - 1) bs) of
                 Inl e \<Rightarrow> Inl e
               | Inr t \<Rightarrow> Inr (seq_value b0 cs # t)))"

definition bytes_decode :: "string \<Rightarrow> error + ustr" where
  "bytes_decode b = utf8_decode (map of_char b)"

subsection \<open>\<open>base64.b32decode\<close>\<close>

definition b32rev :: "char \<Rightarrow> nat option" where
  "b32rev c =
     (let n = (of_char c :: nat)
      in if 65 \<le> n \<and> n \<le> 90 then Some (n - 65)
         else if 50 \<le> n \<and> n \<le> 55 then Some (n - 24)
         else None)"

text \<open>\<open>for c in quanta: acc = (acc << 5) + b32rev[c]\<close>; a missing key is
  \<open>binascii.Error('Non-base32 digit')\<close>.\<close>

fun quanta_acc :: "nat \<Rightarrow> string \<Rightarrow> error + nat" where
  "quanta_acc acc [] = Inr acc"
| "quanta_acc acc (c # cs) =
     (case b32rev c of None \<Rightarrow> Inl BinasciiError
      | Some v \<Rightarrow> quanta_acc (acc * 32 + v) cs)"

text \<open>\<open>acc.to_bytes(5)\<close>, big endian (\<open>acc\<close> is below \<open>2 ^ 40\<close> for an eight-character
  quantum).\<close>

definition to_bytes5 :: "nat \<Rightarrow> string" where
  "to_bytes5 acc = map (\<lambda>k. char_of (acc div 256 ^ k mod 256)) [4, 3, 2, 1, 0]"

text \<open>The loop over the quanta: returns the decoded bytes and the last \<open>acc\<close>.\<close>

fun decode_quanta :: "string \<Rightarrow> nat \<Rightarrow> string \<Rightarrow> error + (string \<times> nat)" where
  "decode_quanta decoded acc s =
     (if s = [] then Inr (decoded, acc)
      else (case quanta_acc 0 (take 8 s) of
              Inl e \<Rightarrow> Inl e
            | Inr acc' \<Rightarrow> decode_quanta (decoded @ to_bytes5 acc') acc' (drop 8 s)))"

declare decode_quanta.simps [simp del]

definition b32decode :: "string \<Rightarrow> error + string" where
  "b32decode s0 =
     (if length s0 mod 8 \<noteq> 0 then Inl BinasciiError
      else
        let l = length s0;
            s = rev (dropWhile (\<lambda>c. c = CHR ''='') (rev s0));
            padchars = l - length s
        in (case decode_quanta [] 0 s of
              Inl e \<Rightarrow> Inl e
            | Inr (decoded, acc) \<Rightarrow>
                if l mod 8 \<noteq> 0 \<or> padchars \<notin> {0, 1, 3, 4, 6} then Inl BinasciiError
                else if padchars \<noteq> 0 \<and> decoded \<noteq> [] then
                  (let last = to_bytes5 (acc * 2 ^ (5 * padchars));
                       leftover = (43 - 5 * padchars) div 8
                   in Inr (take (length decoded - 5) decoded @ take leftover last))
                else Inr decoded))"

section \<open>The User class: pure parts\<close>

definition decode_cn :: "string \<Rightarrow> error + ustr" where
  "decode_cn cn0 =
     (let missing_padding = length cn0 mod 8;
          cn = (if missing_padding \<noteq> 0 then cn0 @ replicate (8 - missing_padding) CHR ''=''
                else cn0)
      in (case b32decode (utf8_encode cn) of
            Inl e \<Rightarrow> Inl e
          | Inr b \<Rightarrow> bytes_decode b))"

definition fmt_address :: "string \<Rightarrow> int \<Rightarrow> string" where
  "fmt_address address port = address @ '':'' @ str_int port"

text \<open>\<open>User._vlan_ifname\<close>, as a function of \<open>challenge.host_veth.ifname\<close> and
  \<open>self.vlan\<close>.\<close>

definition vlan_ifname :: "string \<Rightarrow> int \<Rightarrow> string" where
  "vlan_ifname ifname vlan =
     (let suffix = ''.'' @ str_int vlan
      in slice_to (15 - int (length suffix)) ifname @ suffix)"

section \<open>The host: netlink interfaces, container daemon, child processes\<close>

text \<open>
  The Manager works on the host through three handles: the \<open>pyroute2\<close> IPDB (a
  dictionary of the interfaces of the host namespace, by name), the docker client (used
  for one query, \<open>networks.list(names=[n])\<close>) and child processes started from
  \<open>subprocess\<close> (\<open>docker-compose\<close>). Every call of the module on them is written
  to a trace, in program order, together with the log records.
\<close>

record iface =
  index :: nat
  up :: bool
  master :: "nat option"
  ipaddr :: "(string \<times> nat) list"
  vlan_link :: "(string \<times> int) option"

record host =
  interfaces :: "(string \<times> iface) list"
  networks_list :: "string \<Rightarrow> string list"

datatype level = DEBUG | INFO | WARNING

datatype netlink =
    Create_vlan string string int
  | Link_up string
  | Del_ip string string nat
  | Add_port string string
  | Remove_link string

datatype event =
    Log level string "ustr list"
  | Exec "string list"
  | Netlink netlink
  | Close string

record world =
  host :: host
  trace :: "event list"
  draws :: nat

text \<open>
  What the module cannot decide is a parameter: \<open>rnd\<close> is the entropy behind
  \<open>random.randint\<close> (the \<open>k\<close>-th draw of the process reads \<open>rnd k\<close>), and
  \<open>proc cmd h\<close> is what running the command \<open>cmd\<close> as a child process on the host
  \<open>h\<close> gives: its return code, its standard output and the host it leaves.
\<close>

record env =
  rnd :: "nat \<Rightarrow> nat"
  proc :: "string list \<Rightarrow> host \<Rightarrow> (nat \<times> string) \<times> host"

definition emit :: "event \<Rightarrow> world \<Rightarrow> world" where
  "emit e w = w\<lparr>trace := trace w @ [e]\<rparr>"

definition log :: "level \<Rightarrow> string \<Rightarrow> ustr list \<Rightarrow> world \<Rightarrow> world" where
  "log lvl msg args w = emit (Log lvl msg args) w"

text \<open>\<open>random.randint(a, b)\<close>: an integer of \<open>[a, b]\<close>, every one of them possible.\<close>

definition randint :: "int \<Rightarrow> int \<Rightarrow> nat \<Rightarrow> int" where
  "randint a b r = a + int (r mod nat (b - a + 1))"

text \<open>Sequencing: an exception of the first computation skips the second; the state
  reached when it was raised is kept.\<close>

definition and_then ::
  "(error + 'a) \<times> 's \<Rightarrow> ('a \<Rightarrow> 's \<Rightarrow> (error + 'b) \<times> 's) \<Rightarrow> (error + 'b) \<times> 's" where
  "and_then m f = (case m of (Inl e, s) \<Rightarrow> (Inl e, s) | (Inr a, s) \<Rightarrow> f a s)"

subsection \<open>\<open>subprocess.check_output\<close> and \<open>subprocess.check_call\<close>\<close>

definition check_output :: "env \<Rightarrow> string list \<Rightarrow> world \<Rightarrow> (error + string) \<times> world" where
  "check_output E cmd w =
     (case proc E cmd (host w) of
        ((rc, out), h) \<Rightarrow>
          (if rc \<noteq> 0 then Inl (CalledProcessError rc) else Inr out,
           (emit (Exec cmd) w)\<lparr>host := h\<rparr>))"

definition check_call :: "env \<Rightarrow> string list \<Rightarrow> world \<Rightarrow> (error + unit) \<times> world" where
  "check_call E cmd w =
     (case proc E cmd (host w) of
        ((rc, out), h) \<Rightarrow>
          (if rc \<noteq> 0 then Inl (CalledProcessError rc) else Inr (),
           (emit (Exec cmd) w)\<lparr>host := h\<rparr>))"

subsection \<open>The IPDB transactions the module commits\<close>

text \<open>Every commit succeeds; the kernel numbers a new interface after the highest
  index in use.\<close>

definition fresh_index :: "(string \<times> iface) list \<Rightarrow> nat" where
  "fresh_index ifs = Suc (fold max (map (\<lambda>p. index (snd p)) ifs) 0)"

definition on_interfaces ::
  "((string \<times> iface) list \<Rightarrow> (string \<times> iface) list) \<Rightarrow> world \<Rightarrow> world" where
  "on_interfaces f w = w\<lparr>host := (host w)\<lparr>interfaces := f (interfaces (host w))\<rparr>\<rparr>"

definition ipdb_create_vlan :: "string \<Rightarrow> string \<Rightarrow> int \<Rightarrow> world \<Rightarrow> world" where
  "ipdb_create_vlan ifname link vid w =
     on_interfaces
       (\<lambda>ifs. AList.update ifname
          \<lparr>index = fresh_index ifs, up = False, master = None, ipaddr = [],
           vlan_link = Some (link, vid)\<rparr> ifs)
       (emit (Netlink (Create_vlan ifname link vid)) w)"

definition ipdb_up :: "string \<Rightarrow> world \<Rightarrow> world" where
  "ipdb_up ifname w =
     on_interfaces (AList.map_entry ifname (\<lambda>i. i\<lparr>up := True\<rparr>))
       (emit (Netlink (Link_up ifname)) w)"

text \<open>\<open>for addr, mask in bridge_if.ipaddr: bridge_if.del_ip(addr, mask)\<close>, then
  \<open>bridge_if.add_port(vlan_if).commit()\<close>: one transaction.\<close>

definition ipdb_strip_and_add_port :: "string \<Rightarrow> iface \<Rightarrow> string \<Rightarrow> world \<Rightarrow> world" where
  "ipdb_strip_and_add_port bridge bridge_if port w =
     on_interfaces
       (\<lambda>ifs. AList.map_entry port (\<lambda>i. i\<lparr>master := Some (index bridge_if)\<rparr>)
                (AList.map_entry bridge (\<lambda>i. i\<lparr>ipaddr := []\<rparr>) ifs))
       (emit (Netlink (Add_port bridge port))
          (fold (\<lambda>(addr, mask). emit (Netlink (Del_ip bridge addr mask))) (ipaddr bridge_if) w))"

definition ipdb_remove :: "string \<Rightarrow> world \<Rightarrow> world" where
  "ipdb_remove ifname w =
     on_interfaces (AList.delete ifname) (emit (Netlink (Remove_link ifname)) w)"

section \<open>The classes of \<open>naum.py\<close>\<close>

text \<open>
  The locks are not modelled: every operation below runs alone, from its call to its
  return. A \<open>User\<close> reads its challenge's name, compose files and host interface; the
  back reference \<open>self.challenge\<close> is the challenge passed to each of its methods.
  \<open>host_veth\<close> is the IPDB's interface object, a view of the interface of that
  name: the model keeps the name. The dictionaries \<open>users\<close> and \<open>challenges\<close> are
  association lists in insertion order, as Python's \<open>dict\<close>s are.
\<close>

definition CHALLENGE_FOLDER :: string where
  "CHALLENGE_FOLDER = ''./challenges''"

definition COMPOSE_CMD :: string where
  "COMPOSE_CMD = ''docker-compose''"

record user =
  connections :: "string set"
  cn :: string
  name :: ustr
  vlan :: int
  ident :: string

record challenge =
  host_veth :: string
  chal_name :: string
  compose_files :: "string list"
  vlans :: "int set"
  users :: "(string \<times> user) list"

record manager =
  challenges :: "(string \<times> challenge) list"

subsection \<open>User\<close>

text \<open>\<open>User.__init__\<close>; \<open>self.id\<close> is the field \<open>ident\<close>.\<close>

definition User_init :: "string \<Rightarrow> int \<Rightarrow> challenge \<Rightarrow> error + user" where
  "User_init c v ch =
     (case decode_cn c of
        Inl e \<Rightarrow> Inl e
      | Inr n \<Rightarrow>
          Inr \<lparr>connections = {}, cn = c, name = n, vlan = v,
               ident = lower c @ ''_'' @ chal_name ch\<rparr>)"

text \<open>\<open>User._get_compose_cmd\<close>: the list it builds, then the method, which logs the
  list and returns it.\<close>

definition compose_command :: "challenge \<Rightarrow> user \<Rightarrow> string list \<Rightarrow> string list" where
  "compose_command ch u args =
     [COMPOSE_CMD, ''--project-name'', ident u]
     @ concat (map (\<lambda>conf. [''--file'', normpath (path_join CHALLENGE_FOLDER conf)])
                 (compose_files ch))
     @ args"

definition get_compose_cmd ::
  "challenge \<Rightarrow> user \<Rightarrow> string list \<Rightarrow> world \<Rightarrow> string list \<times> world" where
  "get_compose_cmd ch u args w =
     (let command = compose_command ch u args
      in (command, log DEBUG (join_str '' '' command) [] w))"

definition is_running :: "env \<Rightarrow> challenge \<Rightarrow> user \<Rightarrow> world \<Rightarrow> (error + bool) \<times> world" where
  "is_running E ch u w =
     (case get_compose_cmd ch u [''top''] w of
        (cmd, w1) \<Rightarrow>
          and_then (check_output E cmd w1)
            (\<lambda>out w2. case bytes_decode out of
                         Inl e \<Rightarrow> (Inl e, w2)
                       | Inr t \<Rightarrow> (Inr (length (strip t) > 0), w2)))"

text \<open>\<open>User.stop_compose(timeout=10)\<close>: a caller that gives no timeout
  (\<open>remove_connection\<close>) passes 10.\<close>

definition stop_compose ::
  "env \<Rightarrow> challenge \<Rightarrow> user \<Rightarrow> int \<Rightarrow> world \<Rightarrow> (error + unit) \<times> world" where
  "stop_compose E ch u timeout w =
     (case get_compose_cmd ch u [''down'', ''--timeout'', str_int timeout] w of
        (cmd, w1) \<Rightarrow>
          and_then (check_call E cmd w1)
            (\<lambda>_ w2. (Inr (),
                      log DEBUG ''cluster down for %s's %s challenge''
                        [name u, codepoints (chal_name ch)] w2)))"

definition get_bridge_iface :: "user \<Rightarrow> world \<Rightarrow> error + (string \<times> iface)" where
  "get_bridge_iface u w =
     (case networks_list (host w) (ident u @ ''_default'') of
        [] \<Rightarrow> Inl (ValueError (''No default network up for '' @ ident u))
      | nid # _ \<Rightarrow>
          (case map_of (interfaces (host w)) (''br-'' @ slice_to 12 nid) of
             None \<Rightarrow> Inl (KeyError (''br-'' @ slice_to 12 nid))
           | Some i \<Rightarrow> Inr (''br-'' @ slice_to 12 nid, i)))"

definition User_vlan_ifname :: "challenge \<Rightarrow> user \<Rightarrow> string" where
  "User_vlan_ifname ch u = vlan_ifname (host_veth ch) (vlan u)"

definition ensure_vlan_bridged :: "challenge \<Rightarrow> user \<Rightarrow> world \<Rightarrow> (error + unit) \<times> world" where
  "ensure_vlan_bridged ch u w =
     (let ifn = User_vlan_ifname ch u;
          w1 = (if map_of (interfaces (host w)) ifn = None
                then ipdb_create_vlan ifn (host_veth ch) (vlan u)
                       (log INFO ''creating vlan %s'' [codepoints ifn] w)
                else w);
          w2 = ipdb_up ifn w1
      in (case get_bridge_iface u w2 of
            Inl e \<Rightarrow> (Inl e, w2)
          | Inr (bridge, bridge_if) \<Rightarrow>
              (if map_option master (map_of (interfaces (host w2)) ifn)
                    \<noteq> Some (Some (index bridge_if))
               then (Inr (),
                     ipdb_strip_and_add_port bridge bridge_if ifn
                       (log INFO ''adding vlan %s to bridge %s''
                          [codepoints ifn, codepoints bridge] w2))
               else (Inr (), w2))))"

definition ensure_vlan_gone :: "challenge \<Rightarrow> user \<Rightarrow> world \<Rightarrow> world" where
  "ensure_vlan_gone ch u w =
     (let ifn = User_vlan_ifname ch u
      in if map_of (interfaces (host w)) ifn \<noteq> None
         then ipdb_remove ifn (log INFO ''removing vlan %s'' [codepoints ifn] w)
         else w)"

definition add_connection ::
  "env \<Rightarrow> challenge \<Rightarrow> string \<Rightarrow> int \<Rightarrow> user \<times> world \<Rightarrow> (error + unit) \<times> user \<times> world" where
  "add_connection E ch address port s =
     (case s of
        (u, w) \<Rightarrow>
          and_then
            (if connections u = {} then
               (case
                  and_then
                    (is_running E ch u
                       (log INFO ''first connection of user %s to challenge %s, booting cluster...''
                          [name u, codepoints (chal_name ch)] w))
                    (\<lambda>running w1.
                       and_then
                         (if running
                          then stop_compose E ch u 3
                                 (log WARNING
                                    ''cluster for user %s's %s challenge is already running, stopping it now...''
                                    [name u, codepoints (chal_name ch)] w1)
                          else (Inr (), w1))
                         (\<lambda>_ w2.
                            case get_compose_cmd ch u [''up'', ''--detach''] w2 of
                              (cmd, w3) \<Rightarrow>
                                and_then (check_call E cmd w3)
                                  (\<lambda>_ w4.
                                     ensure_vlan_bridged ch u
                                       (log DEBUG ''cluster up for %s's %s challenge''
                                          [name u, codepoints (chal_name ch)] w4))))
                of (r, w') \<Rightarrow> (r, u, w'))
             else (Inr (), u, w))
            (\<lambda>_ (u1, w1).
               let addr = fmt_address address port
               in (Inr (),
                   u1\<lparr>connections := insert addr (connections u1)\<rparr>,
                   log INFO ''user %s connected from %s to challenge %s''
                     [name u1, codepoints addr, codepoints (chal_name ch)] w1)))"

definition remove_connection ::
  "env \<Rightarrow> challenge \<Rightarrow> string \<Rightarrow> int \<Rightarrow> user \<times> world \<Rightarrow> (error + unit) \<times> user \<times> world" where
  "remove_connection E ch address port s =
     (case s of
        (u, w) \<Rightarrow>
          (let addr = fmt_address address port
           in if addr \<notin> connections u
              then (Inr (), u,
                    log WARNING
                      ''attempting to remove non-existent connection of user %s to challenge %s (from %s)''
                      [name u, codepoints (chal_name ch), codepoints addr] w)
              else
                (let w1 = log INFO ''user %s (at %s) disconnected from challenge %s ''
                            [name u, codepoints addr, codepoints (chal_name ch)] w;
                     u1 = u\<lparr>connections := connections u - {addr}\<rparr>
                 in if connections u1 = {}
                    then
                      (case is_running E ch u1 w1 of
                         (Inl e, w2) \<Rightarrow> (Inl e, u1, w2)
                       | (Inr running, w2) \<Rightarrow>
                           if \<not> running
                           then (Inr (), u1,
                                 log WARNING
                                   ''last connection of user %s to challenge %s removed, but the cluster isn't running''
                                   [name u1, codepoints (chal_name ch)] w2)
                           else
                             (case stop_compose E ch u1 10
                                     (log INFO
                                        ''no connections remain of user %s to challenge %s, shutting cluster down...''
                                        [name u1, codepoints (chal_name ch)] w2) of
                                (Inl e, w3) \<Rightarrow> (Inl e, u1, w3)
                              | (Inr _, w3) \<Rightarrow> (Inr (), u1, ensure_vlan_gone ch u1 w3)))
                    else (Inr (), u1, w1))))"

definition stop :: "env \<Rightarrow> challenge \<Rightarrow> user \<Rightarrow> world \<Rightarrow> (error + unit) \<times> world" where
  "stop E ch u w = stop_compose E ch u 2 w"

subsection \<open>Challenge\<close>

definition Challenge_init ::
  "string \<Rightarrow> string \<Rightarrow> string list \<Rightarrow> world \<Rightarrow> (error + challenge) \<times> world" where
  "Challenge_init nm veth files w =
     (case map_of (interfaces (host w)) veth of
        None \<Rightarrow> (Inl (KeyError veth), w)
      | Some _ \<Rightarrow>
          (Inr \<lparr>host_veth = veth, chal_name = nm, compose_files = files, vlans = {},
                users = []\<rparr>,
           ipdb_up veth w))"

text \<open>
  The loop of \<open>Challenge._next_vlan\<close>, on its three variables: \<open>vlan\<close>, the number
  of draws made and \<open>self.vlans\<close>. It runs while \<open>not vlan\<close>, that is while
  \<open>vlan\<close> is \<open>None\<close> or \<open>0\<close>. The value \<^term>\<open>None :: (int \<times> nat \<times> int set) option\<close>
  of the function is a loop that never ends.
\<close>

partial_function (option) next_vlan_loop ::
  "(nat \<Rightarrow> nat) \<Rightarrow> int option \<Rightarrow> nat \<Rightarrow> int set \<Rightarrow> (int \<times> nat \<times> int set) option" where
  "next_vlan_loop r v n vs =
     (if v = None \<or> v = Some 0 then
        (if randint 10 4000 (r n) \<notin> vs
         then next_vlan_loop r (Some (randint 10 4000 (r n))) (Suc n)
                (insert (randint 10 4000 (r n)) vs)
         else next_vlan_loop r v (Suc n) vs)
      else Some (the v, n, vs))"

declare next_vlan_loop.simps [code]

definition next_vlan :: "env \<Rightarrow> challenge \<times> world \<Rightarrow> (int \<times> challenge \<times> world) option" where
  "next_vlan E s =
     (case s of
        (ch, w) \<Rightarrow>
          map_option (\<lambda>(v, n, vs). (v, ch\<lparr>vlans := vs\<rparr>, w\<lparr>draws := n\<rparr>))
            (next_vlan_loop (rnd E) None (draws w) (vlans ch)))"

text \<open>In \<open>User(cn, self._next_vlan(), self)\<close> the argument is evaluated first: the
  VLAN is drawn and recorded before \<open>User.__init__\<close> runs.\<close>

definition ensure_user_exists ::
  "env \<Rightarrow> string \<Rightarrow> challenge \<times> world \<Rightarrow> ((error + unit) \<times> challenge \<times> world) option" where
  "ensure_user_exists E c s =
     (case s of
        (ch, w) \<Rightarrow>
          if map_of (users ch) c = None then
            (case next_vlan E (ch, w) of
               None \<Rightarrow> None
             | Some (v, ch1, w1) \<Rightarrow>
                 (case User_init c v ch1 of
                    Inl e \<Rightarrow> Some (Inl e, ch1, w1)
                  | Inr u \<Rightarrow> Some (Inr (), ch1\<lparr>users := AList.update c u (users ch1)\<rparr>, w1)))
          else Some (Inr (), ch, w))"

text \<open>A method of the user \<open>self.users[cn]\<close> works on the object in the dictionary:
  the user it leaves is stored back under the same key.\<close>

definition on_user ::
  "string \<Rightarrow> (user \<times> world \<Rightarrow> (error + 'a) \<times> user \<times> world) \<Rightarrow> challenge \<times> world
     \<Rightarrow> (error + 'a \<times> user) \<times> challenge \<times> world" where
  "on_user c f s =
     (case s of
        (ch, w) \<Rightarrow>
          (case map_of (users ch) c of
             None \<Rightarrow> (Inl (KeyError c), ch, w)
           | Some u \<Rightarrow>
               (case f (u, w) of
                  (r, u', w') \<Rightarrow>
                    (map_sum id (\<lambda>a. (a, u')) r,
                     ch\<lparr>users := AList.update c u' (users ch)\<rparr>, w'))))"

definition Challenge_connect_user ::
  "env \<Rightarrow> string \<Rightarrow> string \<Rightarrow> int \<Rightarrow> challenge \<times> world
     \<Rightarrow> ((error + int) \<times> challenge \<times> world) option" where
  "Challenge_connect_user E c address port s =
     map_option
       (\<lambda>m. and_then m
               (\<lambda>_ s1. and_then (on_user c (add_connection E (fst s1) address port) s1)
                          (\<lambda>(_, u) s2. (Inr (vlan u), s2))))
       (ensure_user_exists E c s)"

definition Challenge_disconnect_user ::
  "env \<Rightarrow> string \<Rightarrow> string \<Rightarrow> int \<Rightarrow> challenge \<times> world
     \<Rightarrow> ((error + unit) \<times> challenge \<times> world) option" where
  "Challenge_disconnect_user E c address port s =
     map_option
       (\<lambda>m. and_then m
               (\<lambda>_ s1. and_then (on_user c (remove_connection E (fst s1) address port) s1)
                          (\<lambda>_ s2. (Inr (), s2))))
       (ensure_user_exists E c s)"

text \<open>
  \<open>for u in self.users: u.stop()\<close> runs over the keys of the dictionary, which are
  the common names: \<open>u\<close> is a \<open>str\<close>, and a \<open>str\<close> has no attribute \<open>stop\<close>.
\<close>

definition str_stop :: "string \<Rightarrow> world \<Rightarrow> (error + unit) \<times> world" where
  "str_stop u w = (Inl (AttributeError ''stop''), w)"

fun disconnect_all_loop :: "string list \<Rightarrow> world \<Rightarrow> (error + unit) \<times> world" where
  "disconnect_all_loop [] w = (Inr (), w)"
| "disconnect_all_loop (u # us) w = and_then (str_stop u w) (\<lambda>_. disconnect_all_loop us)"

definition disconnect_all :: "challenge \<Rightarrow> world \<Rightarrow> (error + unit) \<times> world" where
  "disconnect_all ch w = disconnect_all_loop (map fst (users ch)) w"

subsection \<open>Manager\<close>

definition register_challenge ::
  "string \<Rightarrow> string \<Rightarrow> string list \<Rightarrow> manager \<times> world \<Rightarrow> (error + unit) \<times> manager \<times> world" where
  "register_challenge nm veth files s =
     (case s of
        (m, w) \<Rightarrow>
          if map_of (challenges m) nm \<noteq> None
          then (Inr (), m, log WARNING ''challenge %s is already registered'' [codepoints nm] w)
          else
            (case Challenge_init nm veth files
                    (log INFO ''registering challenge %s'' [codepoints nm] w) of
               (Inl e, w1) \<Rightarrow> (Inl e, m, w1)
             | (Inr ch, w1) \<Rightarrow>
                 (Inr (), m\<lparr>challenges := AList.update nm ch (challenges m)\<rparr>, w1)))"

text \<open>A method of the challenge \<open>self.challenges[name]\<close>: a missing key is Python's
  \<open>KeyError\<close>; the challenge the method leaves is stored back under its key.\<close>

definition on_challenge ::
  "string \<Rightarrow> (challenge \<times> world \<Rightarrow> ((error + 'a) \<times> challenge \<times> world) option)
     \<Rightarrow> manager \<times> world \<Rightarrow> ((error + 'a) \<times> manager \<times> world) option" where
  "on_challenge nm f s =
     (case s of
        (m, w) \<Rightarrow>
          (case map_of (challenges m) nm of
             None \<Rightarrow> Some (Inl (KeyError nm), m, w)
           | Some ch \<Rightarrow>
               map_option
                 (\<lambda>(r, ch', w'). (r, m\<lparr>challenges := AList.update nm ch' (challenges m)\<rparr>, w'))
                 (f (ch, w))))"

definition Manager_connect_user ::
  "env \<Rightarrow> string \<Rightarrow> string \<Rightarrow> string \<Rightarrow> int \<Rightarrow> manager \<times> world
     \<Rightarrow> ((error + int) \<times> manager \<times> world) option" where
  "Manager_connect_user E nm c address port s =
     on_challenge nm (Challenge_connect_user E c address port) s"

definition Manager_disconnect_user ::
  "env \<Rightarrow> string \<Rightarrow> string \<Rightarrow> string \<Rightarrow> int \<Rightarrow> manager \<times> world
     \<Rightarrow> ((error + unit) \<times> manager \<times> world) option" where
  "Manager_disconnect_user E nm c address port s =
     on_challenge nm (Challenge_disconnect_user E c address port) s"

text \<open>\<open>Manager._stop\<close>: \<open>disconnect_all\<close> on every challenge, then the three
  handles are closed.\<close>

fun stop_loop :: "challenge list \<Rightarrow> world \<Rightarrow> (error + unit) \<times> world" where
  "stop_loop [] w = (Inr (), w)"
| "stop_loop (c # cs) w = and_then (disconnect_all c w) (\<lambda>_. stop_loop cs)"

definition Manager_stop :: "manager \<Rightarrow> world \<Rightarrow> (error + unit) \<times> world" where
  "Manager_stop m w =
     and_then (stop_loop (map snd (challenges m)) w)
       (\<lambda>_ w1. (Inr (), emit (Close ''host_ns'') (emit (Close ''ipdb'') (emit (Close ''dockerc'') w1))))"

subsection \<open>The RPC server of \<open>manager.py\<close>\<close>

text \<open>
  \<open>server.register_instance(manager)\<close> publishes the Manager's methods as they are;
  the server of the standard library answers a call whose method raises with a fault that
  carries the exception, and a call that returns with the value returned. No handler of
  the repository stands between the method and that answer.
\<close>

datatype 'a reply = Response 'a | Fault error

definition marshal :: "error + 'a \<Rightarrow> 'a reply" where
  "marshal r = (case r of Inl e \<Rightarrow> Fault e | Inr a \<Rightarrow> Response a)"

definition rpc_connect_user ::
  "env \<Rightarrow> string \<Rightarrow> string \<Rightarrow> string \<Rightarrow> int \<Rightarrow> manager \<times> world
     \<Rightarrow> (int reply \<times> manager \<times> world) option" where
  "rpc_connect_user E nm c address port s =
     map_option (\<lambda>(r, s'). (marshal r, s')) (Manager_connect_user E nm c address port s)"

definition rpc_disconnect_user ::
  "env \<Rightarrow> string \<Rightarrow> string \<Rightarrow> string \<Rightarrow> int \<Rightarrow> manager \<times> world
     \<Rightarrow> (unit reply \<times> manager \<times> world) option" where
  "rpc_disconnect_user E nm c address port s =
     map_option (\<lambda>(r, s'). (marshal r, s')) (Manager_disconnect_user E nm c address port s)"

definition rpc_register_challenge ::
  "string \<Rightarrow> string \<Rightarrow> string list \<Rightarrow> manager \<times> world \<Rightarrow> unit reply \<times> manager \<times> world" where
  "rpc_register_challenge nm veth files s =
     (case register_challenge nm veth files s of (r, s') \<Rightarrow> (marshal r, s'))"

section \<open>ASCII names\<close>

text \<open>\<open>str.isascii()\<close>: every code point is below 128, so that the UTF-8 form of the
  string has one byte per character.\<close>

definition isascii :: "string \<Rightarrow> bool" where
  "isascii s \<longleftrightarrow> list_all (\<lambda>c. (of_char c :: nat) < 128) s"

section \<open>The allocator invariant\<close>

text \<open>
  Invariant 1 of the specification (allocator consistency): the VLANs of a challenge's
  users are the VLANs in use, each way.
\<close>

definition allocator_consistent :: "challenge \<Rightarrow> bool" where
  "allocator_consistent ch \<longleftrightarrow> vlan ` snd ` set (users ch) = vlans ch"

section \<open>An example deployment\<close>

text \<open>
  A host with the interface \<open>host0\<close>, and a \<open>docker-compose\<close> that does what it is
  asked: \<open>up\<close> creates the project's default network and its bridge, \<open>down\<close>
  removes them, \<open>top\<close> prints a line when the project is up. The command line is the
  one \<^const>\<open>compose_command\<close> builds, so its third word is the project.
\<close>

definition example_compose :: "string list \<Rightarrow> host \<Rightarrow> (nat \<times> string) \<times> host" where
  "example_compose cmd h =
     (let net = hd (drop 2 cmd) @ ''_default''
      in if last cmd = ''top''
         then ((0, if networks_list h net = [] then [] else ''web_1''), h)
         else if ''up'' \<in> set cmd
         then ((0, []),
               h\<lparr>interfaces :=
                    AList.update ''br-0123456789ab''
                      \<lparr>index = fresh_index (interfaces h), up = True, master = None,
                       ipaddr = [(''172.18.0.1'', 16)], vlan_link = None\<rparr> (interfaces h),
                 networks_list := (networks_list h)(net := [''0123456789abcdef''])\<rparr>)
         else ((0, []),
               h\<lparr>interfaces := AList.delete ''br-0123456789ab'' (interfaces h),
                 networks_list := (networks_list h)(net := [])\<rparr>))"

definition example_env :: env where
  "example_env = \<lparr>rnd = (\<lambda>k. 1224 + k), proc = example_compose\<rparr>"

definition example_host :: host where
  "example_host =
     \<lparr>interfaces =
        [(''host0'', \<lparr>index = 1, up = True, master = None, ipaddr = [], vlan_link = None\<rparr>)],
      networks_list = (\<lambda>_. [])\<rparr>"

definition example_world :: world where
  "example_world = \<lparr>host = example_host, trace = [], draws = 0\<rparr>"

text \<open>The challenge \<open>example\<close> as \<open>register_challenge\<close> leaves it, and with one user
  (common name \<open>MFRGG\<close>, the base32 form of \<open>abc\<close>) connected from one address.\<close>

definition example_challenge :: challenge where
  "example_challenge =
     \<lparr>host_veth = ''host0'', chal_name = ''example'', compose_files = [''ex.yml''],
      vlans = {}, users = []\<rparr>"

definition example_user :: user where
  "example_user =
     \<lparr>connections = {''10.8.0.2:49152''}, cn = ''MFRGG'', name = [97, 98, 99], vlan = 1234,
      ident = ''mfrgg_example''\<rparr>"

definition example_manager :: manager where
  "example_manager = \<lparr>challenges = [(''example'', example_challenge)]\<rparr>"

text \<open>The same deployment after \<open>connect_user("example", "MFRGG", "10.8.0.2", 49152)\<close>:
  the cluster is up, the VLAN interface is a port of the cluster's bridge, and the trace
  holds the boot sequence.\<close>

definition example_live_host :: host where
  "example_live_host =
     \<lparr>interfaces =
        [(''host0'', \<lparr>index = 1, up = True, master = None, ipaddr = [], vlan_link = None\<rparr>),
         (''br-0123456789ab'',
          \<lparr>index = 2, up = True, master = None, ipaddr = [], vlan_link = None\<rparr>),
         (''host0.1234'',
          \<lparr>index = 3, up = True, master = Some 2, ipaddr = [],
           vlan_link = Some (''host0'', 1234)\<rparr>)],
      networks_list = (\<lambda>_. [])(''mfrgg_example_default'' := [''0123456789abcdef''])\<rparr>"

definition example_boot_trace :: "event list" where
  "example_boot_trace =
     [Log INFO ''first connection of user %s to challenge %s, booting cluster...''
        [[97, 98, 99], codepoints ''example''],
      Log DEBUG ''docker-compose --project-name mfrgg_example --file challenges/ex.yml top'' [],
      Exec [''docker-compose'', ''--project-name'', ''mfrgg_example'', ''--file'',
            ''challenges/ex.yml'', ''top''],
      Log DEBUG
        ''docker-compose --project-name mfrgg_example --file challenges/ex.yml up --detach'' [],
      Exec [''docker-compose'', ''--project-name'', ''mfrgg_example'', ''--file'',
            ''challenges/ex.yml'', ''up'', ''--detach''],
      Log DEBUG ''cluster up for %s's %s challenge'' [[97, 98, 99], codepoints ''example''],
      Log INFO ''creating vlan %s'' [codepoints ''host0.1234''],
      Netlink (Create_vlan ''host0.1234'' ''host0'' 1234),
      Netlink (Link_up ''host0.1234''),
      Log INFO ''adding vlan %s to bridge %s''
        [codepoints ''host0.1234'', codepoints ''br-0123456789ab''],
      Netlink (Del_ip ''br-0123456789ab'' ''172.18.0.1'' 16),
      Netlink (Add_port ''br-0123456789ab'' ''host0.1234''),
      Log INFO ''user %s connected from %s to challenge %s''
        [[97, 98, 99], codepoints ''10.8.0.2:49152'', codepoints ''example'']]"

definition example_live_challenge :: challenge where
  "example_live_challenge =
     example_challenge\<lparr>vlans := {1234}, users := [(''MFRGG'', example_user)]\<rparr>"

definition example_live_manager :: manager where
  "example_live_manager = \<lparr>challenges = [(''example'', example_live_challenge)]\<rparr>"

definition example_live_world :: world where
  "example_live_world = \<lparr>host = example_live_host, trace = example_boot_trace, draws = 1\<rparr>"

section \<open>Auxiliary facts\<close>

lemma digits_small: "n < 10 \<Longrightarrow> length (digits n) = 1"
  by (subst digits.simps) simp

lemma digits_step: "10 \<le> n \<Longrightarrow> length (digits n) = Suc (length (digits (n div 10)))"
  by (subst digits.simps) simp

lemma digits_vlan:
  assumes "10 \<le> n" and "n \<le> 4000"
  shows "length (digits n) \<le> 4"
proof -
  consider "n < 100" | "100 \<le> n" "n < 1000" | "1000 \<le> n" by linarith
  then show ?thesis
  proof cases
    case 1
    then have "n div 10 < 10" by simp
    with assms show ?thesis by (simp add: digits_step digits_small)
  next
    case 2
    then have "10 \<le> n div 10" "n div 10 div 10 < 10" by simp_all
    with assms show ?thesis by (simp add: digits_step digits_small)
  next
    case 3
    with assms have "10 \<le> n div 10" "10 \<le> n div 10 div 10" "n div 10 div 10 div 10 < 10"
      by simp_all
    with assms show ?thesis by (simp add: digits_step digits_small)
  qed
qed

lemma str_int_vlan: "10 \<le> v \<Longrightarrow> v \<le> 4000 \<Longrightarrow> length (str_int v) \<le> 4"
  using digits_vlan [of "nat v"] by (simp add: str_int_def)

lemma randint_vlan_range: "10 \<le> randint 10 4000 r \<and> randint 10 4000 r \<le> 4000"
proof -
  have "r mod 3991 < 3991" by simp
  then show ?thesis unfolding randint_def by simp
qed

lemma next_vlan_loop_done: "v \<noteq> 0 \<Longrightarrow> next_vlan_loop r (Some v) n vs = Some (v, n, vs)"
  by (subst next_vlan_loop.simps) simp

lemma next_vlan_loop_skip:
  "randint 10 4000 (r n) \<in> vs \<Longrightarrow> next_vlan_loop r None n vs = next_vlan_loop r None (Suc n) vs"
  by (subst next_vlan_loop.simps) simp

lemma next_vlan_loop_hit:
  assumes "randint 10 4000 (r n) \<notin> vs"
  shows "next_vlan_loop r None n vs
           = Some (randint 10 4000 (r n), Suc n, insert (randint 10 4000 (r n)) vs)"
proof -
  have "randint 10 4000 (r n) \<noteq> 0" using randint_vlan_range [of "r n"] by linarith
  then show ?thesis using assms
    by (subst next_vlan_loop.simps) (simp add: next_vlan_loop_done)
qed

lemma next_vlan_loop_first:
  assumes "\<forall>j<k. randint 10 4000 (r (n + j)) \<in> vs" and "randint 10 4000 (r (n + k)) \<notin> vs"
  shows "next_vlan_loop r None n vs
           = Some (randint 10 4000 (r (n + k)), Suc (n + k), insert (randint 10 4000 (r (n + k))) vs)"
  using assms
proof (induction k arbitrary: n)
  case 0
  then show ?case using next_vlan_loop_hit [of r n vs] by simp
next
  case (Suc k)
  from Suc.prems(1) have here: "randint 10 4000 (r n) \<in> vs" by force
  have "\<forall>j<k. randint 10 4000 (r (Suc n + j)) \<in> vs"
  proof (intro allI impI)
    fix j assume "j < k"
    then have "Suc j < Suc k" by simp
    with Suc.prems(1) have "randint 10 4000 (r (n + Suc j)) \<in> vs" by blast
    then show "randint 10 4000 (r (Suc n + j)) \<in> vs" by simp
  qed
  moreover from Suc.prems(2) have "randint 10 4000 (r (Suc n + k)) \<notin> vs" by simp
  ultimately have "next_vlan_loop r None (Suc n) vs
      = Some (randint 10 4000 (r (Suc n + k)), Suc (Suc n + k),
              insert (randint 10 4000 (r (Suc n + k))) vs)"
    by (rule Suc.IH)
  with here show ?case by (simp add: next_vlan_loop_skip)
qed

lemma next_vlan_loop_returns:
  assumes "next_vlan_loop r v n vs = Some y"
  shows "v = None \<or> v = Some 0 \<longrightarrow> (\<exists>k. randint 10 4000 (r (n + k)) \<notin> vs)"
proof (rule next_vlan_loop.raw_induct
    [where P = "\<lambda>r v n vs y. v = None \<or> v = Some 0 \<longrightarrow> (\<exists>k. randint 10 4000 (r (n + k)) \<notin> vs)",
      OF _ assms])
  fix f :: "(nat \<Rightarrow> nat) \<Rightarrow> int option \<Rightarrow> nat \<Rightarrow> int set \<Rightarrow> (int \<times> nat \<times> int set) option"
    and r v n vs y
  assume IH: "\<And>r v n vs y. f r v n vs = Some y
                \<Longrightarrow> v = None \<or> v = Some 0 \<longrightarrow> (\<exists>k. randint 10 4000 (r (n + k)) \<notin> vs)"
    and eq: "(if v = None \<or> v = Some 0
              then if randint 10 4000 (r n) \<notin> vs
                   then f r (Some (randint 10 4000 (r n))) (Suc n)
                          (insert (randint 10 4000 (r n)) vs)
                   else f r v (Suc n) vs
              else Some (the v, n, vs)) = Some y"
  show "v = None \<or> v = Some 0 \<longrightarrow> (\<exists>k. randint 10 4000 (r (n + k)) \<notin> vs)"
  proof
    assume v: "v = None \<or> v = Some 0"
    show "\<exists>k. randint 10 4000 (r (n + k)) \<notin> vs"
    proof (cases "randint 10 4000 (r n) \<in> vs")
      case False
      then have "randint 10 4000 (r (n + 0)) \<notin> vs" by simp
      then show ?thesis by blast
    next
      case True
      with v eq have "f r v (Suc n) vs = Some y" by simp
      from IH [OF this] v obtain k where "randint 10 4000 (r (Suc n + k)) \<notin> vs" by blast
      then have "randint 10 4000 (r (n + Suc k)) \<notin> vs" by simp
      then show ?thesis by blast
    qed
  qed
qed

lemma next_vlan_loop_never:
  assumes "\<forall>k. randint 10 4000 (r (n + k)) \<in> vs"
  shows "next_vlan_loop r None n vs = None"
proof (cases "next_vlan_loop r None n vs")
  case None
  then show ?thesis .
next
  case (Some y)
  from next_vlan_loop_returns [OF Some] assms show ?thesis by blast
qed

lemma vlans_exhausted:
  assumes "{10..4000} \<subseteq> vs"
  shows "next_vlan_loop r None n vs = None"
proof (rule next_vlan_loop_never, rule allI)
  fix k
  from randint_vlan_range [of "r (n + k)"] have "randint 10 4000 (r (n + k)) \<in> {10..4000}"
    by simp
  with assms show "randint 10 4000 (r (n + k)) \<in> vs" by blast
qed

lemma next_vlan_loop_result:
  assumes "next_vlan_loop r v n vs = Some y"
  shows "if v = None \<or> v = Some 0
         then fst y \<notin> vs \<and> snd (snd y) = insert (fst y) vs \<and> 10 \<le> fst y \<and> fst y \<le> 4000
              \<and> n < fst (snd y)
         else y = (the v, n, vs)"
proof (rule next_vlan_loop.raw_induct
    [where P = "\<lambda>r v n vs y. if v = None \<or> v = Some 0
         then fst y \<notin> vs \<and> snd (snd y) = insert (fst y) vs \<and> 10 \<le> fst y \<and> fst y \<le> 4000
              \<and> n < fst (snd y)
         else y = (the v, n, vs)", OF _ assms])
  fix f :: "(nat \<Rightarrow> nat) \<Rightarrow> int option \<Rightarrow> nat \<Rightarrow> int set \<Rightarrow> (int \<times> nat \<times> int set) option"
    and r v n vs y
  assume IH: "\<And>r v n vs y. f r v n vs = Some y
                \<Longrightarrow> if v = None \<or> v = Some 0
         then fst y \<notin> vs \<and> snd (snd y) = insert (fst y) vs \<and> 10 \<le> fst y \<and> fst y \<le> 4000
              \<and> n < fst (snd y)
         else y = (the v, n, vs)"
    and eq: "(if v = None \<or> v = Some 0
              then if randint 10 4000 (r n) \<notin> vs
                   then f r (Some (randint 10 4000 (r n))) (Suc n)
                          (insert (randint 10 4000 (r n)) vs)
                   else f r v (Suc n) vs
              else Some (the v, n, vs)) = Some y"
  define d where "d = randint 10 4000 (r n)"
  have d: "10 \<le> d" "d \<le> 4000" using randint_vlan_range [of "r n"] by (simp_all add: d_def)
  show "if v = None \<or> v = Some 0
         then fst y \<notin> vs \<and> snd (snd y) = insert (fst y) vs \<and> 10 \<le> fst y \<and> fst y \<le> 4000
              \<and> n < fst (snd y)
         else y = (the v, n, vs)"
  proof (cases "v = None \<or> v = Some 0")
    case False
    with eq show ?thesis by auto
  next
    case v: True
    show ?thesis
    proof (cases "d \<in> vs")
      case True
      with v eq have "f r v (Suc n) vs = Some y" by (simp add: d_def)
      from IH [OF this] v show ?thesis by auto
    next
      case False
      with v eq have "f r (Some d) (Suc n) (insert d vs) = Some y" by (simp add: d_def)
      from IH [OF this] d have "y = (d, Suc n, insert d vs)" by auto
      with False d v show ?thesis by simp
    qed
  qed
qed

lemma next_vlan_result:
  assumes "next_vlan E (ch, w) = Some (v, ch1, w1)"
  shows "ch1 = ch\<lparr>vlans := insert v (vlans ch)\<rparr>" and "v \<notin> vlans ch"
    and "10 \<le> v" and "v \<le> 4000" and "trace w1 = trace w" and "host w1 = host w"
proof -
  from assms obtain n vs where
    l: "next_vlan_loop (rnd E) None (draws w) (vlans ch) = Some (v, n, vs)"
    and c: "ch1 = ch\<lparr>vlans := vs\<rparr>" and w: "w1 = w\<lparr>draws := n\<rparr>"
    by (auto simp: next_vlan_def)
  from next_vlan_loop_result [OF l]
  have "v \<notin> vlans ch \<and> vs = insert v (vlans ch) \<and> 10 \<le> v \<and> v \<le> 4000" by simp
  with c w show "ch1 = ch\<lparr>vlans := insert v (vlans ch)\<rparr>" and "v \<notin> vlans ch"
    and "10 \<le> v" and "v \<le> 4000" and "trace w1 = trace w" and "host w1 = host w"
    by simp_all
qed

lemma ensure_user_exists_known:
  "map_of (users ch) c = Some u \<Longrightarrow> ensure_user_exists E c (ch, w) = Some (Inr (), ch, w)"
  by (simp add: ensure_user_exists_def)

lemma ensure_user_exists_fails:
  assumes "map_of (users ch) c = None" and "decode_cn c = Inl e"
    and "next_vlan E (ch, w) = Some (v, ch1, w1)"
  shows "ensure_user_exists E c (ch, w) = Some (Inl e, ch1, w1)"
  using assms by (simp add: ensure_user_exists_def User_init_def)

lemma ensure_user_exists_creates:
  assumes "map_of (users ch) c = None" and "User_init c v ch1 = Inr u"
    and "next_vlan E (ch, w) = Some (v, ch1, w1)"
  shows "ensure_user_exists E c (ch, w)
           = Some (Inr (), ch1\<lparr>users := AList.update c u (users ch1)\<rparr>, w1)"
  using assms by (simp add: ensure_user_exists_def)

text \<open>Unfolding the padding \<open>'=' * n\<close> for a literal \<open>n\<close>.\<close>

lemma padding_unfold: "replicate (numeral n) c = c # replicate (numeral n - 1) c"
  by (simp add: numeral_eq_Suc)

lemmas decode_defs = padding_unfold decode_cn_def b32decode_def decode_quanta.simps
  utf8_encode_def b32rev_def to_bytes5_def bytes_decode_def seq_len_def second_ok_def
  is_cont_def seq_value_def char_of_def bit_0 Let_def

lemma decode_cn_ZZZZ: "decode_cn ''ZZZZ'' = Inl UnicodeDecodeError"
  by (simp add: decode_defs)

lemma decode_cn_MFRGG: "decode_cn ''MFRGG'' = Inr [97, 98, 99]"
  by (simp add: decode_defs)

lemma User_init_MFRGG:
  "chal_name ch = ''example''
     \<Longrightarrow> User_init ''MFRGG'' 1234 ch = Inr (example_user\<lparr>connections := {}\<rparr>)"
  by (simp add: User_init_def decode_cn_MFRGG example_user_def lower_def lower_char_def
      char_of_def bit_0)

lemma next_vlan_example_first:
  "vlans ch = {}
     \<Longrightarrow> next_vlan example_env (ch, example_world)
           = Some (1234, ch\<lparr>vlans := {1234}\<rparr>, example_world\<lparr>draws := 1\<rparr>)"
  using next_vlan_loop_hit [of "\<lambda>k. 1224 + k" 0 "{}"]
  by (simp add: next_vlan_def example_env_def example_world_def randint_def)

lemma next_vlan_example_second:
  "vlans ch = {1234}
     \<Longrightarrow> next_vlan example_env (ch, example_world)
           = Some (1235, ch\<lparr>vlans := {1235, 1234}\<rparr>, example_world\<lparr>draws := 2\<rparr>)"
  using next_vlan_loop_first [of 1 "\<lambda>k. 1224 + k" 0 "{1234}"]
  by (simp add: next_vlan_def example_env_def example_world_def randint_def)

lemma on_challenge_known:
  assumes "map_of (challenges m) nm = Some ch" and "f (ch, w) = Some (r, ch', w')"
  shows "on_challenge nm f (m, w)
           = Some (r, m\<lparr>challenges := AList.update nm ch' (challenges m)\<rparr>, w')"
  using assms by (simp add: on_challenge_def)

lemma quanta_acc_error: "quanta_acc acc s = Inl e \<Longrightarrow> e = BinasciiError"
  by (induction s arbitrary: acc) (auto split: option.splits)

lemma decode_quanta_error: "decode_quanta d acc s = Inl e \<Longrightarrow> e = BinasciiError"
proof (induction d acc s rule: decode_quanta.induct)
  case (1 decoded acc s)
  show ?case
  proof (cases "s = []")
    case True
    with "1.prems" show ?thesis by (simp add: decode_quanta.simps)
  next
    case False
    show ?thesis
    proof (cases "quanta_acc 0 (take 8 s)")
      case (Inl x)
      with False "1.prems" have "x = e" by (subst (asm) decode_quanta.simps) simp
      with Inl quanta_acc_error show ?thesis by blast
    next
      case (Inr acc')
      with False "1.prems" have "decode_quanta (decoded @ to_bytes5 acc') acc' (drop 8 s) = Inl e"
        by (subst (asm) decode_quanta.simps) simp
      with "1.IH" [OF False Inr] show ?thesis by simp
    qed
  qed
qed

lemma b32decode_error: "b32decode s = Inl e \<Longrightarrow> e = BinasciiError"
  by (auto simp: b32decode_def Let_def split: if_splits sum.splits dest: decode_quanta_error)

lemma utf8_decode_error: "utf8_decode bs = Inl e \<Longrightarrow> e = UnicodeDecodeError"
  by (induction bs rule: utf8_decode.induct) (auto simp: Let_def split: if_splits sum.splits)

lemma decode_cn_error: "decode_cn c = Inl e \<Longrightarrow> e = BinasciiError \<or> e = UnicodeDecodeError"
  by (auto simp: decode_cn_def bytes_decode_def Let_def split: sum.splits if_splits
      dest: b32decode_error utf8_decode_error)

lemma remove_connection_absent:
  assumes "fmt_address address port \<notin> connections u"
  shows "remove_connection E ch address port (u, w)
           = (Inr (), u,
              log WARNING
                ''attempting to remove non-existent connection of user %s to challenge %s (from %s)''
                [name u, codepoints (chal_name ch), codepoints (fmt_address address port)] w)"
  using assms by (simp add: remove_connection_def)

lemma disconnect_known_user_absent:
  assumes "map_of (users ch) c = Some u" and "fmt_address address port \<notin> connections u"
  shows "Challenge_disconnect_user E c address port (ch, w)
           = Some (Inr (), ch,
                   log WARNING
                     ''attempting to remove non-existent connection of user %s to challenge %s (from %s)''
                     [name u, codepoints (chal_name ch), codepoints (fmt_address address port)] w)"
  using assms
  by (simp add: Challenge_disconnect_user_def ensure_user_exists_known and_then_def on_user_def
      remove_connection_absent update_triv)

lemma User_init_fresh:
  assumes "User_init c v ch = Inr u"
  shows "connections u = {}" and "vlan u = v" and "cn u = c"
  using assms by (auto simp: User_init_def split: sum.splits)

lemma disconnect_new_user:
  assumes "map_of (users ch) c = None" and "next_vlan E (ch, w) = Some (v, ch1, w1)"
    and "User_init c v ch1 = Inr u"
  shows "Challenge_disconnect_user E c address port (ch, w)
           = Some (Inr (), ch1\<lparr>users := AList.update c u (users ch1)\<rparr>,
                   log WARNING
                     ''attempting to remove non-existent connection of user %s to challenge %s (from %s)''
                     [name u, codepoints (chal_name ch), codepoints (fmt_address address port)] w1)"
proof -
  from next_vlan_result(1) [OF assms(2)] have n: "chal_name ch1 = chal_name ch" by simp
  from User_init_fresh(1) [OF assms(3)]
  have "fmt_address address port \<notin> connections u" by simp
  with n show ?thesis
    by (simp add: Challenge_disconnect_user_def ensure_user_exists_creates [OF assms(1,3,2)]
        and_then_def on_user_def remove_connection_absent update_conv')
qed





lemma compose_command_connections [simp]:
  "compose_command ch (u\<lparr>connections := cs\<rparr>) args = compose_command ch u args"
  by (simp add: compose_command_def)

lemma User_vlan_ifname_connections [simp]:
  "User_vlan_ifname ch (u\<lparr>connections := cs\<rparr>) = User_vlan_ifname ch u"
  by (simp add: User_vlan_ifname_def)

lemma add_connection_live:
  assumes "connections u \<noteq> {}"
  shows "add_connection E ch address port (u, w)
           = (Inr (), u\<lparr>connections := insert (fmt_address address port) (connections u)\<rparr>,
              log INFO ''user %s connected from %s to challenge %s''
                [name u, codepoints (fmt_address address port), codepoints (chal_name ch)] w)"
  using assms by (simp add: add_connection_def and_then_def Let_def)

lemma add_connection_returns:
  assumes "add_connection E ch address port (u, w) = (Inr (), u', w')"
  shows "u' = u\<lparr>connections := insert (fmt_address address port) (connections u)\<rparr>"
  using assms
  by (auto simp: add_connection_def and_then_def Let_def split: if_splits prod.splits sum.splits)

lemma ensure_user_exists_returns:
  assumes "ensure_user_exists E c (ch, w) = Some (Inr (), ch0, w0)"
    and "map_of (users ch0) c = Some u0"
  shows "map_of (users ch) c = Some u0 \<or> (map_of (users ch) c = None \<and> connections u0 = {})"
proof (cases "map_of (users ch) c")
  case (Some u)
  with assms show ?thesis by (simp add: ensure_user_exists_def)
next
  case None
  with assms obtain v ch1 u where "User_init c v ch1 = Inr u"
    and "ch0 = ch1\<lparr>users := AList.update c u (users ch1)\<rparr>"
    by (auto simp: ensure_user_exists_def split: option.splits sum.splits)
  with assms(2) have "u0 = u" by (simp add: update_conv')
  with \<open>User_init c v ch1 = Inr u\<close> None show ?thesis
    using User_init_fresh(1) by simp
qed

lemma Challenge_connect_user_returns:
  assumes "Challenge_connect_user E c address port (ch, w) = Some (Inr v, ch', w')"
  obtains ch0 w0 u0 where "ensure_user_exists E c (ch, w) = Some (Inr (), ch0, w0)"
    and "map_of (users ch0) c = Some u0"
    and "add_connection E ch0 address port (u0, w0)
           = (Inr (), u0\<lparr>connections := insert (fmt_address address port) (connections u0)\<rparr>, w')"
    and "ch' = ch0\<lparr>users := AList.update c
                 (u0\<lparr>connections := insert (fmt_address address port) (connections u0)\<rparr>)
                 (users ch0)\<rparr>"
    and "v = vlan u0"
proof -
  from assms obtain r0 ch0 w0 where e: "ensure_user_exists E c (ch, w) = Some (r0, ch0, w0)"
    by (auto simp: Challenge_connect_user_def)
  with assms have r0: "r0 = Inr ()"
    by (cases r0) (simp_all add: Challenge_connect_user_def and_then_def)
  from assms e r0 obtain u0 where u0: "map_of (users ch0) c = Some u0"
    by (cases "map_of (users ch0) c")
       (simp_all add: Challenge_connect_user_def and_then_def on_user_def)
  obtain r u' w1 where a: "add_connection E ch0 address port (u0, w0) = (r, u', w1)"
    by (cases "add_connection E ch0 address port (u0, w0)") auto
  from assms e r0 u0 a have r: "r = Inr ()" and w1: "w1 = w'"
    and ch': "ch' = ch0\<lparr>users := AList.update c u' (users ch0)\<rparr>" and v: "v = vlan u'"
    by (cases r; simp add: Challenge_connect_user_def and_then_def on_user_def)+
  from add_connection_returns [OF a [unfolded r]]
  have u': "u' = u0\<lparr>connections := insert (fmt_address address port) (connections u0)\<rparr>" .
  show thesis
    using that [OF e [unfolded r0] u0] a r w1 ch' v u' by simp
qed

lemma example_command:
  "ident u = ''mfrgg_example'' \<Longrightarrow> compose_files ch = [''ex.yml'']
     \<Longrightarrow> compose_command ch u args
           = [''docker-compose'', ''--project-name'', ''mfrgg_example'', ''--file'',
              ''challenges/ex.yml''] @ args"
  by (simp add: compose_command_def COMPOSE_CMD_def CHALLENGE_FOLDER_def normpath_def
      path_join_def Let_def)

lemma example_address: "fmt_address ''10.8.0.2'' 49152 = ''10.8.0.2:49152''"
  by (simp add: fmt_address_def str_int_def digits.simps digit_char_def char_of_def bit_0)

lemma example_ifname: "vlan_ifname ''host0'' 1234 = ''host0.1234''"
  by (simp add: vlan_ifname_def slice_to_def str_int_def digits.simps digit_char_def
      char_of_def bit_0)

lemma example_boot:
  "add_connection example_env (example_challenge\<lparr>vlans := {1234},
        users := [(''MFRGG'', example_user\<lparr>connections := {}\<rparr>)]\<rparr>)
     ''10.8.0.2'' 49152
     (example_user\<lparr>connections := {}\<rparr>, example_world\<lparr>draws := 1\<rparr>)
   = (Inr (), example_user,
      \<lparr>host = example_live_host, trace = example_boot_trace, draws = 1\<rparr>)"
  by (simp add: add_connection_def and_then_def is_running_def get_compose_cmd_def
      check_output_def check_call_def example_command example_address
      ensure_vlan_bridged_def User_vlan_ifname_def example_ifname get_bridge_iface_def
      ipdb_create_vlan_def ipdb_up_def ipdb_strip_and_add_port_def on_interfaces_def
      fresh_index_def slice_to_def log_def emit_def Let_def
      bytes_decode_def strip_def
      example_env_def example_compose_def example_world_def example_host_def
      example_challenge_def example_user_def example_live_host_def example_boot_trace_def)

lemma Challenge_connect_user_ok:
  assumes "ensure_user_exists E c (ch, w) = Some (Inr (), ch0, w0)"
    and "map_of (users ch0) c = Some u0"
    and "add_connection E ch0 address port (u0, w0) = (Inr (), u1, w1)"
  shows "Challenge_connect_user E c address port (ch, w)
           = Some (Inr (vlan u1), ch0\<lparr>users := AList.update c u1 (users ch0)\<rparr>, w1)"
  using assms by (simp add: Challenge_connect_user_def and_then_def on_user_def)

lemma example_first_connect:
  "Manager_connect_user example_env ''example'' ''MFRGG'' ''10.8.0.2'' 49152
     (example_manager, example_world)
     = Some (Inr 1234, example_live_manager, example_live_world)"
proof -
  let ?ch0 = "example_challenge\<lparr>vlans := {1234},
                 users := [(''MFRGG'', example_user\<lparr>connections := {}\<rparr>)]\<rparr>"
  have a: "map_of (challenges example_manager) ''example'' = Some example_challenge"
    by (simp add: example_manager_def)
  have b: "map_of (users example_challenge) ''MFRGG'' = None"
    by (simp add: example_challenge_def)
  have n: "next_vlan example_env (example_challenge, example_world)
             = Some (1234, example_challenge\<lparr>vlans := {1234}\<rparr>, example_world\<lparr>draws := 1\<rparr>)"
    by (rule next_vlan_example_first) (simp add: example_challenge_def)
  have u: "User_init ''MFRGG'' 1234 (example_challenge\<lparr>vlans := {1234}\<rparr>)
             = Inr (example_user\<lparr>connections := {}\<rparr>)"
    by (rule User_init_MFRGG) (simp add: example_challenge_def)
  have e: "ensure_user_exists example_env ''MFRGG'' (example_challenge, example_world)
             = Some (Inr (), ?ch0, example_world\<lparr>draws := 1\<rparr>)"
    using ensure_user_exists_creates [OF b u n] by (simp add: example_challenge_def)
  have m: "map_of (users ?ch0) ''MFRGG'' = Some (example_user\<lparr>connections := {}\<rparr>)"
    by simp
  have boot: "add_connection example_env ?ch0 ''10.8.0.2'' 49152
                (example_user\<lparr>connections := {}\<rparr>, example_world\<lparr>draws := 1\<rparr>)
              = (Inr (), example_user, example_live_world)"
    using example_boot by (simp add: example_live_world_def)
  have "Challenge_connect_user example_env ''MFRGG'' ''10.8.0.2'' 49152
          (example_challenge, example_world)
          = Some (Inr 1234, example_live_challenge, example_live_world)"
    using Challenge_connect_user_ok [OF e m boot]
    by (simp add: example_live_challenge_def example_user_def)
  from on_challenge_known
         [where f = "Challenge_connect_user example_env ''MFRGG'' ''10.8.0.2'' 49152", OF a this]
  show ?thesis by (simp add: Manager_connect_user_def example_manager_def example_live_manager_def)
qed

lemma utf8_encode_ascii: "isascii s \<Longrightarrow> utf8_encode s = s"
  by (induction s) (simp_all add: isascii_def utf8_encode_def)

lemma isascii_append: "isascii (xs @ ys) \<longleftrightarrow> isascii xs \<and> isascii ys"
  by (simp add: isascii_def)

lemma isascii_take: "isascii s \<Longrightarrow> isascii (take n s)"
  by (auto simp: isascii_def list_all_iff dest: in_set_takeD)

lemma digit_char_ascii: "d < 10 \<Longrightarrow> (of_char (digit_char d) :: nat) < 128"
  by (simp add: digit_char_def)

lemma digits_ascii: "isascii (digits n)"
proof (induction n rule: digits.induct)
  case (1 n)
  show ?case
  proof (cases "n < 10")
    case True
    then show ?thesis
      by (subst digits.simps) (simp add: isascii_def digit_char_ascii)
  next
    case False
    have "n mod 10 < 10" by simp
    with False "1.IH" show ?thesis
      by (subst digits.simps) (simp add: isascii_append, simp add: isascii_def digit_char_ascii)
  qed
qed

lemma vlan_ifname_ascii:
  assumes "isascii ifname" and "0 \<le> v"
  shows "isascii (vlan_ifname ifname v)"
  using assms digits_ascii [of "nat v"]
  by (simp add: vlan_ifname_def slice_to_def str_int_def isascii_append isascii_take Let_def)
     (simp add: isascii_def)

section \<open>The interface name of a user's VLAN\<close>

text \<open>
  Claim C7, as the code has it. For every host VETH name and every VLAN ID in
  \<open>[10, 4000]\<close>, the name \<open>User._vlan_ifname\<close> computes is the VETH name cut to
  \<open>15 - len(".<vlan>")\<close> characters followed by \<open>".<vlan>"\<close>, and it has at most 15
  characters. The slice counts characters, not bytes: when the VETH name is ASCII the
  name is its own UTF-8 form and is never longer than 15 bytes.
\<close>

theorem vlan_ifname_fits:
  assumes "10 \<le> vlan u" and "vlan u \<le> 4000"
  shows "User_vlan_ifname ch u
           = take (15 - length (''.'' @ str_int (vlan u))) (host_veth ch) @ ''.'' @ str_int (vlan u)
         \<and> length (User_vlan_ifname ch u) \<le> 15
         \<and> (isascii (host_veth ch)
              \<longrightarrow> utf8_encode (User_vlan_ifname ch u) = User_vlan_ifname ch u
                \<and> length (utf8_encode (User_vlan_ifname ch u)) \<le> 15)"
proof -
  define k where "k = length (str_int (vlan u))"
  have k: "k \<le> 4" using str_int_vlan [OF assms] by (simp add: k_def)
  then have n: "nat (14 - int k) = 14 - k" by linarith
  from k have "min (length (host_veth ch)) (14 - k) + k \<le> 14" by linarith
  with k n have chars: "User_vlan_ifname ch u
           = take (15 - length (''.'' @ str_int (vlan u))) (host_veth ch) @ ''.'' @ str_int (vlan u)
         \<and> length (User_vlan_ifname ch u) \<le> 15"
    by (simp add: User_vlan_ifname_def vlan_ifname_def slice_to_def k_def [symmetric])
  have bytes: "isascii (host_veth ch)
              \<longrightarrow> utf8_encode (User_vlan_ifname ch u) = User_vlan_ifname ch u
                \<and> length (utf8_encode (User_vlan_ifname ch u)) \<le> 15"
  proof
    assume "isascii (host_veth ch)"
    with assms(1) have "isascii (User_vlan_ifname ch u)"
      by (simp add: User_vlan_ifname_def vlan_ifname_ascii)
    then have e: "utf8_encode (User_vlan_ifname ch u) = User_vlan_ifname ch u"
      by (rule utf8_encode_ascii)
    from chars have l: "length (User_vlan_ifname ch u) \<le> 15" by (rule conjunct2)
    show "utf8_encode (User_vlan_ifname ch u) = User_vlan_ifname ch u
                \<and> length (utf8_encode (User_vlan_ifname ch u)) \<le> 15"
      by (simp only: e l simp_thms)
  qed
  from chars bytes show ?thesis by blast
qed

theorem vlan_ifname_fits_witness:
  "isascii ''averyveryverylonghostname''
   \<and> User_vlan_ifname (example_challenge\<lparr>host_veth := ''averyveryverylonghostname''\<rparr>)
        example_user
     = ''averyveryv.1234''
   \<and> utf8_encode ''averyveryv.1234'' = ''averyveryv.1234''
   \<and> length (utf8_encode (User_vlan_ifname
        (example_challenge\<lparr>host_veth := ''averyveryverylonghostname''\<rparr>) example_user)) \<le> 15"
  using vlan_ifname_fits
    [of example_user "example_challenge\<lparr>host_veth := ''averyveryverylonghostname''\<rparr>"]
  by (simp add: example_user_def example_challenge_def str_int_def digits.simps digit_char_def
      char_of_def bit_0 isascii_def utf8_encode_def)

text \<open>
  The claim as the specification states it, 15 bytes for every VETH name, fails on a
  name that is not ASCII: the VETH name of seven \<open>U+00E9\<close> is 14 bytes long, a name
  the kernel accepts; with the VLAN 1234 the computed name has 12 characters and 19
  bytes.
\<close>

theorem vlan_ifname_bytes_counterexample:
  "length (utf8_encode (replicate 7 (CHR 0xE9))) = 14
   \<and> User_vlan_ifname (example_challenge\<lparr>host_veth := replicate 7 (CHR 0xE9)\<rparr>) example_user
     = replicate 7 (CHR 0xE9) @ ''.1234''
   \<and> length (User_vlan_ifname (example_challenge\<lparr>host_veth := replicate 7 (CHR 0xE9)\<rparr>)
        example_user) = 12
   \<and> length (utf8_encode
        (User_vlan_ifname (example_challenge\<lparr>host_veth := replicate 7 (CHR 0xE9)\<rparr>)
           example_user)) = 19
   \<and> \<not> length (utf8_encode
        (User_vlan_ifname (example_challenge\<lparr>host_veth := replicate 7 (CHR 0xE9)\<rparr>)
           example_user)) \<le> 15"
  by (simp add: User_vlan_ifname_def vlan_ifname_def slice_to_def utf8_encode_def
      example_user_def example_challenge_def str_int_def digits.simps digit_char_def
      char_of_def bit_0 padding_unfold Let_def)

section \<open>The Manager's registry\<close>

text \<open>
  Claim C6. \<open>register_challenge\<close> with a name that is already registered is a no-op:
  it returns without an error, logs one warning and leaves the Manager (the
  \<open>challenges\<close> dictionary, and with it the registered challenge, its \<open>host_veth\<close>
  and its \<open>compose_files\<close>) and the host as they were.
\<close>

theorem register_challenge_duplicate:
  assumes "map_of (challenges m) nm = Some ch"
  shows "register_challenge nm veth files (m, w)
           = (Inr (), m,
              w\<lparr>trace := trace w
                   @ [Log WARNING ''challenge %s is already registered'' [codepoints nm]]\<rparr>)"
  using assms by (simp add: register_challenge_def log_def emit_def)

theorem register_challenge_duplicate_witness:
  "map_of (challenges example_manager) ''example'' = Some example_challenge
   \<and> register_challenge ''example'' ''host1'' [''other.yml''] (example_manager, example_world)
     = (Inr (), example_manager,
        example_world\<lparr>trace := trace example_world
           @ [Log WARNING ''challenge %s is already registered'' [codepoints ''example'']]\<rparr>)"
  using register_challenge_duplicate
    [of example_manager "''example''" example_challenge "''host1''" "[''other.yml'']" example_world]
  by (simp add: example_manager_def)

text \<open>
  Claim C2. \<open>connect_user\<close> and \<open>disconnect_user\<close> with a challenge name that is
  not registered raise the error of the failed lookup \<open>self.challenges[name]\<close> (Python's
  \<open>KeyError\<close>, which is what the specification calls \<open>UnknownChallengeError\<close>); the
  Manager and the host are left as they were, and the RPC caller receives the error as a
  fault.
\<close>

theorem unknown_challenge_raises:
  assumes "map_of (challenges m) nm = None"
  shows "Manager_connect_user E nm c address port (m, w) = Some (Inl (KeyError nm), m, w)
       \<and> Manager_disconnect_user E nm c address port (m, w) = Some (Inl (KeyError nm), m, w)
       \<and> rpc_connect_user E nm c address port (m, w) = Some (Fault (KeyError nm), m, w)
       \<and> rpc_disconnect_user E nm c address port (m, w) = Some (Fault (KeyError nm), m, w)"
  using assms
  by (simp add: Manager_connect_user_def Manager_disconnect_user_def on_challenge_def
      rpc_connect_user_def rpc_disconnect_user_def marshal_def)

theorem unknown_challenge_raises_witness:
  "map_of (challenges example_manager) ''nope'' = None
   \<and> Manager_connect_user example_env ''nope'' ''MFRGG'' ''10.8.0.2'' 49152
        (example_manager, example_world)
     = Some (Inl (KeyError ''nope''), example_manager, example_world)
   \<and> Manager_disconnect_user example_env ''nope'' ''MFRGG'' ''10.8.0.2'' 49152
        (example_manager, example_world)
     = Some (Inl (KeyError ''nope''), example_manager, example_world)
   \<and> rpc_connect_user example_env ''nope'' ''MFRGG'' ''10.8.0.2'' 49152
        (example_manager, example_world)
     = Some (Fault (KeyError ''nope''), example_manager, example_world)
   \<and> rpc_disconnect_user example_env ''nope'' ''MFRGG'' ''10.8.0.2'' 49152
        (example_manager, example_world)
     = Some (Fault (KeyError ''nope''), example_manager, example_world)"
  using unknown_challenge_raises
    [of example_manager "''nope''" example_env "''MFRGG''" "''10.8.0.2''" 49152 example_world]
  by (simp add: example_manager_def)

section \<open>VLAN allocation\<close>

text \<open>
  Claim C1, as the code has it. \<open>Challenge._next_vlan\<close> draws until a draw is not in
  \<open>self.vlans\<close>: when the draws \<open>0, \<dots>, k - 1\<close> from now are in use and draw
  \<open>k\<close> is not, it returns draw \<open>k\<close>, an ID of \<open>[10, 4000]\<close>, and adds it to the
  set. When every ID of \<open>[10, 4000]\<close> is in use it never returns: the loop has no
  retry bound and nothing is raised.
\<close>

theorem next_vlan_first_unused_draw:
  "((\<forall>j<k. randint 10 4000 (rnd E (draws w + j)) \<in> vlans ch)
      \<and> randint 10 4000 (rnd E (draws w + k)) \<notin> vlans ch
    \<longrightarrow> next_vlan E (ch, w)
          = Some (randint 10 4000 (rnd E (draws w + k)),
                  ch\<lparr>vlans := insert (randint 10 4000 (rnd E (draws w + k))) (vlans ch)\<rparr>,
                  w\<lparr>draws := Suc (draws w + k)\<rparr>)
        \<and> 10 \<le> randint 10 4000 (rnd E (draws w + k))
        \<and> randint 10 4000 (rnd E (draws w + k)) \<le> 4000)
   \<and> ({10..4000} \<subseteq> vlans ch \<longrightarrow> next_vlan E (ch, w) = None)"
proof (intro conjI impI)
  assume "(\<forall>j<k. randint 10 4000 (rnd E (draws w + j)) \<in> vlans ch)
      \<and> randint 10 4000 (rnd E (draws w + k)) \<notin> vlans ch"
  then have "next_vlan_loop (rnd E) None (draws w) (vlans ch)
          = Some (randint 10 4000 (rnd E (draws w + k)), Suc (draws w + k),
                  insert (randint 10 4000 (rnd E (draws w + k))) (vlans ch))"
    by (intro next_vlan_loop_first) simp_all
  then show "next_vlan E (ch, w)
          = Some (randint 10 4000 (rnd E (draws w + k)),
                  ch\<lparr>vlans := insert (randint 10 4000 (rnd E (draws w + k))) (vlans ch)\<rparr>,
                  w\<lparr>draws := Suc (draws w + k)\<rparr>)"
    by (simp add: next_vlan_def)
next
  show "10 \<le> randint 10 4000 (rnd E (draws w + k))"
    and "randint 10 4000 (rnd E (draws w + k)) \<le> 4000"
    using randint_vlan_range by simp_all
next
  assume "{10..4000} \<subseteq> vlans ch"
  then show "next_vlan E (ch, w) = None"
    by (simp add: next_vlan_def vlans_exhausted)
qed

theorem next_vlan_first_unused_draw_witness:
  "randint 10 4000 (rnd example_env (draws example_world + 0)) = 1234
   \<and> randint 10 4000 (rnd example_env (draws example_world + 1)) = 1235
   \<and> next_vlan example_env (example_challenge\<lparr>vlans := {1234}\<rparr>, example_world)
     = Some (1235, example_challenge\<lparr>vlans := {1235, 1234}\<rparr>, example_world\<lparr>draws := 2\<rparr>)
   \<and> next_vlan example_env (example_challenge\<lparr>vlans := {10..4000}\<rparr>, example_world) = None"
  using next_vlan_first_unused_draw
          [of 1 example_env example_world "example_challenge\<lparr>vlans := {1234}\<rparr>"]
        next_vlan_first_unused_draw
          [of 0 example_env example_world "example_challenge\<lparr>vlans := {10..4000}\<rparr>"]
  by (simp add: example_env_def example_world_def example_challenge_def randint_def)

text \<open>
  The claim as the specification states it fails: a challenge with the 3990 IDs
  \<open>10, \<dots>, 3999\<close> in use is given the last ID, \<open>4000\<close>, and the next allocation,
  with all 3991 IDs in use, does not raise: it does not return at all.
\<close>

theorem next_vlan_exhausted_counterexample:
  "next_vlan (example_env\<lparr>rnd := \<lambda>k. 3990 + k\<rparr>)
     (example_challenge\<lparr>vlans := {10..3999}\<rparr>, example_world)
     = Some (4000, example_challenge\<lparr>vlans := insert 4000 {10..3999}\<rparr>, example_world\<lparr>draws := 1\<rparr>)
   \<and> insert 4000 {10..3999} = {10..4000::int}
   \<and> next_vlan (example_env\<lparr>rnd := \<lambda>k. 3990 + k\<rparr>)
        (example_challenge\<lparr>vlans := {10..4000}\<rparr>, example_world\<lparr>draws := 1\<rparr>)
     = None"
proof (intro conjI)
  show "next_vlan (example_env\<lparr>rnd := \<lambda>k. 3990 + k\<rparr>)
     (example_challenge\<lparr>vlans := {10..3999}\<rparr>, example_world)
     = Some (4000, example_challenge\<lparr>vlans := insert 4000 {10..3999}\<rparr>, example_world\<lparr>draws := 1\<rparr>)"
    using next_vlan_loop_hit [of "\<lambda>k. 3990 + k" 0 "{10..3999}"]
    by (simp add: next_vlan_def example_world_def randint_def)
  show "insert 4000 {10..3999} = {10..4000::int}" by auto
  show "next_vlan (example_env\<lparr>rnd := \<lambda>k. 3990 + k\<rparr>)
        (example_challenge\<lparr>vlans := {10..4000}\<rparr>, example_world\<lparr>draws := 1\<rparr>)
     = None"
    by (simp add: next_vlan_def vlans_exhausted)
qed

section \<open>Shutdown\<close>

text \<open>
  Claim C9 says that \<open>Challenge.disconnect_all\<close> calls \<open>stop()\<close> on every User.
  The code iterates the dictionary \<open>self.users\<close>, which yields its keys: on a challenge
  with one user, \<open>disconnect_all\<close> and \<open>Manager._stop\<close> end with
  \<open>AttributeError\<close> at the first key; no \<open>docker-compose down\<close> is run and no handle
  is closed (the trace stays empty).
\<close>

theorem disconnect_all_raises:
  "disconnect_all (example_challenge\<lparr>vlans := {1234}, users := [(''MFRGG'', example_user)]\<rparr>)
      example_world
     = (Inl (AttributeError ''stop''), example_world)
   \<and> Manager_stop
       \<lparr>challenges = [(''example'',
           example_challenge\<lparr>vlans := {1234}, users := [(''MFRGG'', example_user)]\<rparr>)]\<rparr>
       example_world
     = (Inl (AttributeError ''stop''), example_world)
   \<and> trace example_world = []"
  by (simp add: disconnect_all_def str_stop_def and_then_def Manager_stop_def
      example_challenge_def example_world_def)

section \<open>Common names that do not decode\<close>

text \<open>
  Claim C10. When \<open>connect_user\<close> or \<open>disconnect_user\<close> meets a common name that
  has no User yet and \<open>User.__init__\<close> fails on it (the base32 or UTF-8 decoding of the
  name raises), the exception leaves \<open>_ensure_user_exists\<close> after \<open>_next_vlan\<close> has
  recorded its draw: the \<open>users\<close> dictionary is as before, the drawn VLAN stays in
  \<open>vlans\<close> and belongs to no user, and a challenge that satisfied the allocator
  invariant does not satisfy it any more.
\<close>

theorem failed_user_construction_leaks_vlan:
  assumes "map_of (users ch) c = None" and "decode_cn c = Inl e"
    and "next_vlan E (ch, w) = Some (v, ch1, w1)" and "allocator_consistent ch"
  shows "ensure_user_exists E c (ch, w) = Some (Inl e, ch1, w1)
       \<and> Challenge_connect_user E c address port (ch, w) = Some (Inl e, ch1, w1)
       \<and> Challenge_disconnect_user E c address port (ch, w) = Some (Inl e, ch1, w1)
       \<and> users ch1 = users ch \<and> vlans ch1 = insert v (vlans ch) \<and> v \<notin> vlans ch
       \<and> v \<notin> vlan ` snd ` set (users ch1)
       \<and> \<not> allocator_consistent ch1"
proof -
  note ex = ensure_user_exists_fails [OF assms(1-3)]
  note nv = next_vlan_result [OF assms(3)]
  from nv(1) have u: "users ch1 = users ch" and vs: "vlans ch1 = insert v (vlans ch)" by simp_all
  from assms(4) nv(2) u have no: "v \<notin> vlan ` snd ` set (users ch1)"
    by (simp add: allocator_consistent_def)
  with vs have "\<not> allocator_consistent ch1" by (auto simp: allocator_consistent_def)
  with ex u vs nv(2) no show ?thesis
    by (simp add: Challenge_connect_user_def Challenge_disconnect_user_def and_then_def)
qed

theorem failed_user_construction_leaks_vlan_witness:
  "Challenge_connect_user example_env ''ZZZZ'' ''10.8.0.3'' 50000
     (example_challenge\<lparr>vlans := {1234}, users := [(''MFRGG'', example_user)]\<rparr>, example_world)
     = Some (Inl UnicodeDecodeError,
             example_challenge\<lparr>vlans := {1235, 1234}, users := [(''MFRGG'', example_user)]\<rparr>,
             example_world\<lparr>draws := 2\<rparr>)
   \<and> Challenge_disconnect_user example_env ''ZZZZ'' ''10.8.0.3'' 50000
     (example_challenge\<lparr>vlans := {1234}, users := [(''MFRGG'', example_user)]\<rparr>, example_world)
     = Some (Inl UnicodeDecodeError,
             example_challenge\<lparr>vlans := {1235, 1234}, users := [(''MFRGG'', example_user)]\<rparr>,
             example_world\<lparr>draws := 2\<rparr>)
   \<and> allocator_consistent
        (example_challenge\<lparr>vlans := {1234}, users := [(''MFRGG'', example_user)]\<rparr>)
   \<and> \<not> allocator_consistent
        (example_challenge\<lparr>vlans := {1235, 1234}, users := [(''MFRGG'', example_user)]\<rparr>)"
proof -
  let ?ch = "example_challenge\<lparr>vlans := {1234}, users := [(''MFRGG'', example_user)]\<rparr>"
  have a: "map_of (users ?ch) ''ZZZZ'' = None" by simp
  have n: "next_vlan example_env (?ch, example_world)
             = Some (1235, ?ch\<lparr>vlans := {1235, 1234}\<rparr>, example_world\<lparr>draws := 2\<rparr>)"
    by (rule next_vlan_example_second) simp
  have c: "allocator_consistent ?ch"
    by (simp add: allocator_consistent_def example_user_def)
  from failed_user_construction_leaks_vlan
         [OF a decode_cn_ZZZZ n c, of "''10.8.0.3''" 50000] c
  show ?thesis by (simp add: example_challenge_def)
qed

text \<open>
  Claim C3, as the code has it. A common name whose decoding fails is not tolerated:
  for a name with no User yet (a name that does not decode never gets one), once the VLAN
  is drawn the decoding error (\<open>binascii.Error\<close> or \<open>UnicodeDecodeError\<close>) leaves
  \<open>connect_user\<close> and reaches the RPC caller as a fault; nothing is logged, and no User,
  with or without a fallback name, is stored.
\<close>

theorem decode_failure_aborts_connect:
  assumes "map_of (challenges m) nm = Some ch" and "map_of (users ch) c = None"
    and "decode_cn c = Inl e" and "next_vlan E (ch, w) = Some (v, ch1, w1)"
  shows "Manager_connect_user E nm c address port (m, w)
           = Some (Inl e, m\<lparr>challenges := AList.update nm ch1 (challenges m)\<rparr>, w1)
       \<and> rpc_connect_user E nm c address port (m, w)
           = Some (Fault e, m\<lparr>challenges := AList.update nm ch1 (challenges m)\<rparr>, w1)
       \<and> (e = BinasciiError \<or> e = UnicodeDecodeError)
       \<and> trace w1 = trace w \<and> map_of (users ch1) c = None"
proof -
  have "Challenge_connect_user E c address port (ch, w) = Some (Inl e, ch1, w1)"
    using ensure_user_exists_fails [OF assms(2-4)]
    by (simp add: Challenge_connect_user_def and_then_def)
  from on_challenge_known
         [where f = "Challenge_connect_user E c address port", OF assms(1) this]
  have "Manager_connect_user E nm c address port (m, w)
           = Some (Inl e, m\<lparr>challenges := AList.update nm ch1 (challenges m)\<rparr>, w1)"
    by (simp add: Manager_connect_user_def)
  moreover from next_vlan_result(1) [OF assms(4)] assms(2) have "map_of (users ch1) c = None"
    by simp
  ultimately show ?thesis
    using decode_cn_error [OF assms(3)] next_vlan_result(5) [OF assms(4)]
    by (simp add: rpc_connect_user_def marshal_def)
qed

theorem decode_failure_aborts_connect_witness:
  "Manager_connect_user example_env ''example'' ''ZZZZ'' ''10.8.0.2'' 49152
     (example_manager, example_world)
     = Some (Inl UnicodeDecodeError,
             \<lparr>challenges = [(''example'', example_challenge\<lparr>vlans := {1234}\<rparr>)]\<rparr>,
             example_world\<lparr>draws := 1\<rparr>)"
proof -
  have a: "map_of (challenges example_manager) ''example'' = Some example_challenge"
    by (simp add: example_manager_def)
  have b: "map_of (users example_challenge) ''ZZZZ'' = None"
    by (simp add: example_challenge_def)
  have n: "next_vlan example_env (example_challenge, example_world)
             = Some (1234, example_challenge\<lparr>vlans := {1234}\<rparr>, example_world\<lparr>draws := 1\<rparr>)"
    by (rule next_vlan_example_first) (simp add: example_challenge_def)
  from decode_failure_aborts_connect [OF a b decode_cn_ZZZZ n, of "''10.8.0.2''" 49152]
  show ?thesis by (simp add: example_manager_def)
qed

text \<open>
  The claim as the specification states it fails on the common name \<open>ZZZZ\<close>, which is
  base32 for the bytes \<open>CE 73\<close>, not UTF-8: \<open>connect_user\<close> answers with a fault, the
  trace holds no warning and the challenge has no user.
\<close>

theorem decode_failure_counterexample:
  "rpc_connect_user example_env ''example'' ''ZZZZ'' ''10.8.0.2'' 49152
     (example_manager, example_world)
     = Some (Fault UnicodeDecodeError,
             \<lparr>challenges = [(''example'', example_challenge\<lparr>vlans := {1234}\<rparr>)]\<rparr>,
             example_world\<lparr>draws := 1\<rparr>)
   \<and> trace (example_world\<lparr>draws := 1\<rparr>) = []
   \<and> users (example_challenge\<lparr>vlans := {1234}\<rparr>) = []"
proof -
  have a: "map_of (challenges example_manager) ''example'' = Some example_challenge"
    by (simp add: example_manager_def)
  have b: "map_of (users example_challenge) ''ZZZZ'' = None"
    by (simp add: example_challenge_def)
  have n: "next_vlan example_env (example_challenge, example_world)
             = Some (1234, example_challenge\<lparr>vlans := {1234}\<rparr>, example_world\<lparr>draws := 1\<rparr>)"
    by (rule next_vlan_example_first) (simp add: example_challenge_def)
  have "Challenge_connect_user example_env ''ZZZZ'' ''10.8.0.2'' 49152
          (example_challenge, example_world)
          = Some (Inl UnicodeDecodeError, example_challenge\<lparr>vlans := {1234}\<rparr>,
                  example_world\<lparr>draws := 1\<rparr>)"
    using ensure_user_exists_fails [OF b decode_cn_ZZZZ n]
    by (simp add: Challenge_connect_user_def and_then_def)
  from on_challenge_known
         [where f = "Challenge_connect_user example_env ''ZZZZ'' ''10.8.0.2'' 49152", OF a this]
  show ?thesis
    by (simp add: rpc_connect_user_def Manager_connect_user_def marshal_def example_manager_def
        example_world_def example_challenge_def)
qed

section \<open>Disconnecting what is not connected\<close>

text \<open>
  Claim C4, as the code has it. On a registered challenge, \<open>disconnect_user\<close> for a
  common name that has a User, from an address the User has no connection from, returns
  \<open>None\<close> without raising, logs one warning and changes nothing else. For a common
  name that has no User yet the get-or-create comes first: a VLAN is drawn and a User is
  created and stored, and when that construction succeeds the call returns \<open>None\<close>
  with the same warning.
\<close>

theorem disconnect_without_connection:
  assumes "map_of (challenges m) nm = Some ch"
  shows "(\<forall>u. map_of (users ch) c = Some u \<and> fmt_address address port \<notin> connections u
            \<longrightarrow> Manager_disconnect_user E nm c address port (m, w)
                  = Some (Inr (), m,
                          log WARNING
                            ''attempting to remove non-existent connection of user %s to challenge %s (from %s)''
                            [name u, codepoints (chal_name ch),
                             codepoints (fmt_address address port)] w))
       \<and> (\<forall>v ch1 w1 u. map_of (users ch) c = None \<and> next_vlan E (ch, w) = Some (v, ch1, w1)
              \<and> User_init c v ch1 = Inr u
            \<longrightarrow> Manager_disconnect_user E nm c address port (m, w)
                  = Some (Inr (),
                          m\<lparr>challenges :=
                              AList.update nm (ch1\<lparr>users := AList.update c u (users ch1)\<rparr>)
                                (challenges m)\<rparr>,
                          log WARNING
                            ''attempting to remove non-existent connection of user %s to challenge %s (from %s)''
                            [name u, codepoints (chal_name ch),
                             codepoints (fmt_address address port)] w1)
                \<and> map_of (users (ch1\<lparr>users := AList.update c u (users ch1)\<rparr>)) c = Some u
                \<and> vlans ch1 = insert v (vlans ch) \<and> v \<notin> vlans ch)"
proof (intro conjI allI impI)
  fix u
  assume "map_of (users ch) c = Some u \<and> fmt_address address port \<notin> connections u"
  then have "Challenge_disconnect_user E c address port (ch, w)
           = Some (Inr (), ch,
                   log WARNING
                     ''attempting to remove non-existent connection of user %s to challenge %s (from %s)''
                     [name u, codepoints (chal_name ch), codepoints (fmt_address address port)] w)"
    by (simp add: disconnect_known_user_absent)
  from on_challenge_known
         [where f = "Challenge_disconnect_user E c address port", OF assms this]
  show "Manager_disconnect_user E nm c address port (m, w)
                  = Some (Inr (), m,
                          log WARNING
                            ''attempting to remove non-existent connection of user %s to challenge %s (from %s)''
                            [name u, codepoints (chal_name ch),
                             codepoints (fmt_address address port)] w)"
    using assms by (simp add: Manager_disconnect_user_def update_triv)
next
  fix v ch1 w1 u
  assume h: "map_of (users ch) c = None \<and> next_vlan E (ch, w) = Some (v, ch1, w1)
              \<and> User_init c v ch1 = Inr u"
  then have "Challenge_disconnect_user E c address port (ch, w)
           = Some (Inr (), ch1\<lparr>users := AList.update c u (users ch1)\<rparr>,
                   log WARNING
                     ''attempting to remove non-existent connection of user %s to challenge %s (from %s)''
                     [name u, codepoints (chal_name ch), codepoints (fmt_address address port)] w1)"
    by (simp add: disconnect_new_user)
  from on_challenge_known
         [where f = "Challenge_disconnect_user E c address port", OF assms this]
  show "Manager_disconnect_user E nm c address port (m, w)
                  = Some (Inr (),
                          m\<lparr>challenges :=
                              AList.update nm (ch1\<lparr>users := AList.update c u (users ch1)\<rparr>)
                                (challenges m)\<rparr>,
                          log WARNING
                            ''attempting to remove non-existent connection of user %s to challenge %s (from %s)''
                            [name u, codepoints (chal_name ch),
                             codepoints (fmt_address address port)] w1)"
    by (simp add: Manager_disconnect_user_def)
  show "map_of (users (ch1\<lparr>users := AList.update c u (users ch1)\<rparr>)) c = Some u"
    by (simp add: update_conv')
  from h next_vlan_result(1,2) [of E ch w v ch1 w1]
  show "vlans ch1 = insert v (vlans ch)" and "v \<notin> vlans ch" by simp_all
qed

theorem disconnect_without_connection_witness:
  "Manager_disconnect_user example_env ''example'' ''MFRGG'' ''1.2.3.4'' 9
     (\<lparr>challenges = [(''example'',
          example_challenge\<lparr>vlans := {1234}, users := [(''MFRGG'', example_user)]\<rparr>)]\<rparr>,
      example_world)
     = Some (Inr (),
             \<lparr>challenges = [(''example'',
                example_challenge\<lparr>vlans := {1234}, users := [(''MFRGG'', example_user)]\<rparr>)]\<rparr>,
             log WARNING
               ''attempting to remove non-existent connection of user %s to challenge %s (from %s)''
               [[97, 98, 99], codepoints ''example'', codepoints ''1.2.3.4:9''] example_world)
   \<and> Manager_disconnect_user example_env ''example'' ''MFRGG'' ''1.2.3.4'' 9
        (example_manager, example_world)
     = Some (Inr (),
             \<lparr>challenges = [(''example'',
                example_challenge\<lparr>vlans := {1234},
                   users := [(''MFRGG'', example_user\<lparr>connections := {}\<rparr>)]\<rparr>)]\<rparr>,
             log WARNING
               ''attempting to remove non-existent connection of user %s to challenge %s (from %s)''
               [[97, 98, 99], codepoints ''example'', codepoints ''1.2.3.4:9'']
               (example_world\<lparr>draws := 1\<rparr>))"
proof -
  let ?ch = "example_challenge\<lparr>vlans := {1234}, users := [(''MFRGG'', example_user)]\<rparr>"
  let ?m = "\<lparr>challenges = [(''example'', ?ch)]\<rparr>"
  have f: "fmt_address ''1.2.3.4'' 9 = ''1.2.3.4:9''"
    by (simp add: fmt_address_def str_int_def digits.simps digit_char_def char_of_def bit_0)
  have a: "map_of (challenges ?m) ''example'' = Some ?ch" by simp
  have b: "map_of (users ?ch) ''MFRGG'' = Some example_user
           \<and> fmt_address ''1.2.3.4'' 9 \<notin> connections example_user"
    by (simp add: f example_user_def)
  have a': "map_of (challenges example_manager) ''example'' = Some example_challenge"
    by (simp add: example_manager_def)
  have n: "next_vlan example_env (example_challenge, example_world)
             = Some (1234, example_challenge\<lparr>vlans := {1234}\<rparr>, example_world\<lparr>draws := 1\<rparr>)"
    by (rule next_vlan_example_first) (simp add: example_challenge_def)
  have b': "map_of (users example_challenge) ''MFRGG'' = None
            \<and> next_vlan example_env (example_challenge, example_world)
                = Some (1234, example_challenge\<lparr>vlans := {1234}\<rparr>, example_world\<lparr>draws := 1\<rparr>)
            \<and> User_init ''MFRGG'' 1234 (example_challenge\<lparr>vlans := {1234}\<rparr>)
                = Inr (example_user\<lparr>connections := {}\<rparr>)"
  proof (intro conjI)
    show "map_of (users example_challenge) ''MFRGG'' = None"
      by (simp add: example_challenge_def)
    show "next_vlan example_env (example_challenge, example_world)
            = Some (1234, example_challenge\<lparr>vlans := {1234}\<rparr>, example_world\<lparr>draws := 1\<rparr>)"
      by (rule n)
    show "User_init ''MFRGG'' 1234 (example_challenge\<lparr>vlans := {1234}\<rparr>)
            = Inr (example_user\<lparr>connections := {}\<rparr>)"
      by (rule User_init_MFRGG) (simp add: example_challenge_def)
  qed
  from disconnect_without_connection
         [OF a, of "''MFRGG''" "''1.2.3.4''" 9 example_env example_world, THEN conjunct1,
          THEN spec, THEN mp, OF b]
       disconnect_without_connection
         [OF a', of "''MFRGG''" "''1.2.3.4''" 9 example_env example_world, THEN conjunct2,
          THEN spec, THEN spec, THEN spec, THEN spec, THEN mp, OF b']
  show ?thesis
    by (simp add: f example_user_def example_manager_def example_challenge_def)
qed

text \<open>
  The claim as the specification states it fails on a registered challenge without
  users: \<open>disconnect_user("example", "MFRGG", "1.2.3.4", 9)\<close> returns \<open>None\<close> and
  logs the warning, but the Manager is not what it was: the challenge has a user
  \<open>MFRGG\<close> and the VLAN 1234 in use.
\<close>

theorem disconnect_unknown_cn_counterexample:
  "Manager_disconnect_user example_env ''example'' ''MFRGG'' ''1.2.3.4'' 9
        (example_manager, example_world)
     = Some (Inr (),
             \<lparr>challenges = [(''example'',
                example_challenge\<lparr>vlans := {1234},
                   users := [(''MFRGG'', example_user\<lparr>connections := {}\<rparr>)]\<rparr>)]\<rparr>,
             log WARNING
               ''attempting to remove non-existent connection of user %s to challenge %s (from %s)''
               [[97, 98, 99], codepoints ''example'', codepoints ''1.2.3.4:9'']
               (example_world\<lparr>draws := 1\<rparr>))
   \<and> \<lparr>challenges = [(''example'',
                example_challenge\<lparr>vlans := {1234},
                   users := [(''MFRGG'', example_user\<lparr>connections := {}\<rparr>)]\<rparr>)]\<rparr>
       \<noteq> example_manager"
proof -
  have f: "fmt_address ''1.2.3.4'' 9 = ''1.2.3.4:9''"
    by (simp add: fmt_address_def str_int_def digits.simps digit_char_def char_of_def bit_0)
  have a: "map_of (challenges example_manager) ''example'' = Some example_challenge"
    by (simp add: example_manager_def)
  have b: "map_of (users example_challenge) ''MFRGG'' = None"
    by (simp add: example_challenge_def)
  have n: "next_vlan example_env (example_challenge, example_world)
             = Some (1234, example_challenge\<lparr>vlans := {1234}\<rparr>, example_world\<lparr>draws := 1\<rparr>)"
    by (rule next_vlan_example_first) (simp add: example_challenge_def)
  have u: "User_init ''MFRGG'' 1234 (example_challenge\<lparr>vlans := {1234}\<rparr>)
                = Inr (example_user\<lparr>connections := {}\<rparr>)"
    by (rule User_init_MFRGG) (simp add: example_challenge_def)
  from on_challenge_known
         [where f = "Challenge_disconnect_user example_env ''MFRGG'' ''1.2.3.4'' 9",
          OF a disconnect_new_user [OF b n u]]
  show ?thesis
    by (simp add: Manager_disconnect_user_def f example_user_def example_manager_def
        example_challenge_def)
qed

section \<open>The connections of a user\<close>

text \<open>
  Claim C5. When \<open>connect_user\<close> has returned for a user who had no connection (or
  only the one from this address), a second \<open>connect_user\<close> with the same challenge,
  common name, address and port returns the same VLAN; the user has exactly one
  connection, and the second call does nothing but write one log record: no
  \<open>docker-compose\<close> command, no netlink transaction, and the Manager and the host are
  as the first call left them.
\<close>

theorem connect_twice:
  assumes "map_of (challenges m) nm = Some ch"
    and "\<forall>u. map_of (users ch) c = Some u \<longrightarrow> connections u \<subseteq> {fmt_address address port}"
    and "Manager_connect_user E nm c address port (m, w) = Some (Inr v, m1, w1)"
  shows "\<exists>ch1 u1. map_of (challenges m1) nm = Some ch1 \<and> map_of (users ch1) c = Some u1
           \<and> connections u1 = {fmt_address address port} \<and> vlan u1 = v
           \<and> Manager_connect_user E nm c address port (m1, w1)
               = Some (Inr v, m1,
                       w1\<lparr>trace := trace w1
                            @ [Log INFO ''user %s connected from %s to challenge %s''
                                 [name u1, codepoints (fmt_address address port),
                                  codepoints (chal_name ch1)]]\<rparr>)"
proof -
  let ?addr = "fmt_address address port"
  from assms(1,3) obtain ch' where
    c1: "Challenge_connect_user E c address port (ch, w) = Some (Inr v, ch', w1)"
    and m1: "m1 = m\<lparr>challenges := AList.update nm ch' (challenges m)\<rparr>"
    by (auto simp: Manager_connect_user_def on_challenge_def)
  from c1 obtain ch0 w0 u0 where
    e: "ensure_user_exists E c (ch, w) = Some (Inr (), ch0, w0)"
    and u0: "map_of (users ch0) c = Some u0"
    and ch': "ch' = ch0\<lparr>users := AList.update c (u0\<lparr>connections := insert ?addr (connections u0)\<rparr>)
                 (users ch0)\<rparr>"
    and v: "v = vlan u0"
    by (rule Challenge_connect_user_returns)
  let ?u1 = "u0\<lparr>connections := insert ?addr (connections u0)\<rparr>"
  from ensure_user_exists_returns [OF e u0] assms(2)
  have "connections u0 \<subseteq> {?addr}" by auto
  then have conn: "connections ?u1 = {?addr}" by auto
  have l1: "map_of (challenges m1) nm = Some ch'" by (simp add: m1 update_conv')
  have l2: "map_of (users ch') c = Some ?u1" by (simp add: ch' update_conv')
  have "connections ?u1 \<noteq> {}" by simp
  note add = add_connection_live [OF this, of E ch' address port w1]
  have ins: "?u1\<lparr>connections := insert ?addr (connections ?u1)\<rparr> = ?u1" by simp
  have "Challenge_connect_user E c address port (ch', w1)
          = Some (Inr v, ch',
                  log INFO ''user %s connected from %s to challenge %s''
                    [name ?u1, codepoints ?addr, codepoints (chal_name ch')] w1)"
    using l2 v
    by (simp add: Challenge_connect_user_def ensure_user_exists_known [OF l2] and_then_def
        on_user_def add update_triv)
  from on_challenge_known
         [where f = "Challenge_connect_user E c address port", OF l1 this]
  have "Manager_connect_user E nm c address port (m1, w1)
          = Some (Inr v, m1,
                  w1\<lparr>trace := trace w1
                       @ [Log INFO ''user %s connected from %s to challenge %s''
                            [name ?u1, codepoints ?addr, codepoints (chal_name ch')]]\<rparr>)"
    using l1 by (simp add: Manager_connect_user_def update_triv log_def emit_def)
  with l1 l2 conn v show ?thesis by auto
qed

theorem connect_twice_witness:
  "Manager_connect_user example_env ''example'' ''MFRGG'' ''10.8.0.2'' 49152
     (example_manager, example_world)
     = Some (Inr 1234, example_live_manager, example_live_world)
   \<and> map_of (challenges example_live_manager) ''example'' = Some example_live_challenge
   \<and> map_of (users example_live_challenge) ''MFRGG'' = Some example_user
   \<and> connections example_user = {''10.8.0.2:49152''}
   \<and> Manager_connect_user example_env ''example'' ''MFRGG'' ''10.8.0.2'' 49152
        (example_live_manager, example_live_world)
     = Some (Inr 1234, example_live_manager,
             example_live_world\<lparr>trace := example_boot_trace
                @ [Log INFO ''user %s connected from %s to challenge %s''
                     [[97, 98, 99], codepoints ''10.8.0.2:49152'', codepoints ''example'']]\<rparr>)"
proof -
  have a: "map_of (challenges example_manager) ''example'' = Some example_challenge"
    by (simp add: example_manager_def)
  have b: "\<forall>u. map_of (users example_challenge) ''MFRGG'' = Some u
             \<longrightarrow> connections u \<subseteq> {fmt_address ''10.8.0.2'' 49152}"
    by (simp add: example_challenge_def)
  from connect_twice [OF a b example_first_connect]
  obtain ch1 u1 where
    "map_of (challenges example_live_manager) ''example'' = Some ch1"
    and "map_of (users ch1) ''MFRGG'' = Some u1"
    and "Manager_connect_user example_env ''example'' ''MFRGG'' ''10.8.0.2'' 49152
           (example_live_manager, example_live_world)
         = Some (Inr 1234, example_live_manager,
                 example_live_world\<lparr>trace := trace example_live_world
                    @ [Log INFO ''user %s connected from %s to challenge %s''
                         [name u1, codepoints (fmt_address ''10.8.0.2'' 49152),
                          codepoints (chal_name ch1)]]\<rparr>)"
    by blast
  moreover from this(1) have "ch1 = example_live_challenge"
    by (simp add: example_live_manager_def)
  moreover from this calculation(2) have "u1 = example_user"
    by (simp add: example_live_challenge_def)
  ultimately show ?thesis
    using example_first_connect
    by (simp add: example_address example_live_manager_def)
       (simp add: example_live_challenge_def example_live_world_def example_user_def
          example_challenge_def)
qed



end
